theory Spec2Isabelle
  imports Complex_Main
begin

section \<open>Values of the JavaScript runtime\<close>

subsection \<open>Dates\<close>

text \<open>
  A JavaScript \<^verbatim>\<open>Date\<close> holds a time value: the milliseconds since 1970-01-01T00:00Z, or
  NaN for an invalid date. It is modelled as \<open>int option\<close>, \<open>None\<close> being NaN. The
  functions below are the abstract operations of ECMA-262 (Day, TimeWithinDay, DayFromYear,
  YearFromTime, MonthFromTime, DateFromTime, MakeDay, MakeDate, TimeClip) on which
  \<^verbatim>\<open>getMonth\<close>, \<^verbatim>\<open>setMonth\<close>, \<^verbatim>\<open>getFullYear\<close> and \<^verbatim>\<open>setFullYear\<close> are built. The server's
  local time zone is taken to be UTC, so that local time and time value coincide.
\<close>

type_synonym date = "int option"

definition msPerDay :: int where
  "msPerDay = 86400000"

definition maxTime :: int where
  "maxTime = 8640000000000000"

definition Day :: "int \<Rightarrow> int" where
  "Day t = t div msPerDay"

definition TimeWithinDay :: "int \<Rightarrow> int" where
  "TimeWithinDay t = t mod msPerDay"

definition InLeapYear :: "int \<Rightarrow> bool" where
  "InLeapYear y = ((y mod 4 = 0 \<and> y mod 100 \<noteq> 0) \<or> y mod 400 = 0)"

definition DayFromYear :: "int \<Rightarrow> int" where
  "DayFromYear y =
     365 * (y - 1970) + (y - 1969) div 4 - (y - 1901) div 100 + (y - 1601) div 400"

text \<open>
  ECMA-262 defines YearFromTime as the largest year whose first day is not after the given
  day. It is computed here from the mean length of a Gregorian year (146097 days in 400
  years), corrected by one year where the estimate is off; lemma \<open>YearFromDay_spec\<close> below
  shows that this is the year ECMA-262 means.
\<close>

definition YearFromDay :: "int \<Rightarrow> int" where
  "YearFromDay d =
     (let y = 1970 + (d * 400) div 146097
      in if d < DayFromYear y then y - 1
         else if DayFromYear (y + 1) \<le> d then y + 1
         else y)"

definition YearFromTime :: "int \<Rightarrow> int" where
  "YearFromTime t = YearFromDay (Day t)"

definition DayWithinYear :: "int \<Rightarrow> int" where
  "DayWithinYear t = Day t - DayFromYear (YearFromTime t)"

text \<open>The number of the first day of month \<open>m\<close> (0 to 11) within its year.\<close>

definition monthStart :: "int \<Rightarrow> bool \<Rightarrow> int" where
  "monthStart m leap =
     (let l = (if leap then 1 else 0)
      in if m = 0 then 0 else if m = 1 then 31 else if m = 2 then 59 + l
         else if m = 3 then 90 + l else if m = 4 then 120 + l else if m = 5 then 151 + l
         else if m = 6 then 181 + l else if m = 7 then 212 + l else if m = 8 then 243 + l
         else if m = 9 then 273 + l else if m = 10 then 304 + l else 334 + l)"

definition MonthFromTime :: "int \<Rightarrow> int" where
  "MonthFromTime t =
     (let d = DayWithinYear t; l = (if InLeapYear (YearFromTime t) then 1 else 0)
      in if d < 31 then 0 else if d < 59 + l then 1 else if d < 90 + l then 2
         else if d < 120 + l then 3 else if d < 151 + l then 4 else if d < 181 + l then 5
         else if d < 212 + l then 6 else if d < 243 + l then 7 else if d < 273 + l then 8
         else if d < 304 + l then 9 else if d < 334 + l then 10 else 11)"

definition DateFromTime :: "int \<Rightarrow> int" where
  "DateFromTime t =
     DayWithinYear t - monthStart (MonthFromTime t) (InLeapYear (YearFromTime t)) + 1"

definition MakeDay :: "int \<Rightarrow> int \<Rightarrow> int \<Rightarrow> int" where
  "MakeDay year month dt =
     (let ym = year + month div 12; mn = month mod 12
      in DayFromYear ym + monthStart mn (InLeapYear ym) + dt - 1)"

definition MakeDate :: "int \<Rightarrow> int \<Rightarrow> int" where
  "MakeDate day time = day * msPerDay + time"

definition TimeClip :: "int \<Rightarrow> date" where
  "TimeClip t = (if maxTime < \<bar>t\<bar> then None else Some t)"

definition getMonth :: "date \<Rightarrow> int option" where
  "getMonth d = map_option MonthFromTime d"

definition getFullYear :: "date \<Rightarrow> int option" where
  "getFullYear d = map_option YearFromTime d"

text \<open>
  \<^verbatim>\<open>d.setMonth(month)\<close> keeps the day of the month and the time of day; a day the new
  month does not have runs over into the following month. The argument is a number, NaN
  when it was computed from an invalid date.
\<close>

definition setMonth :: "date \<Rightarrow> int option \<Rightarrow> date" where
  "setMonth d month =
     (case d of
        None \<Rightarrow> None
      | Some t \<Rightarrow>
         (case month of
            None \<Rightarrow> None
          | Some m \<Rightarrow>
             TimeClip (MakeDate (MakeDay (YearFromTime t) m (DateFromTime t))
                                (TimeWithinDay t))))"

definition setFullYear :: "date \<Rightarrow> int option \<Rightarrow> date" where
  "setFullYear d year =
     (case year of
        None \<Rightarrow> None
      | Some y \<Rightarrow>
         (let t = (case d of None \<Rightarrow> 0 | Some t \<Rightarrow> t)
          in TimeClip (MakeDate (MakeDay y (MonthFromTime t) (DateFromTime t))
                                (TimeWithinDay t))))"

text \<open>\<^verbatim>\<open>a <= b\<close> on two dates compares the time values; it is false when one is NaN.\<close>

definition date_le :: "date \<Rightarrow> date \<Rightarrow> bool" where
  "date_le a b = (case (a, b) of (Some x, Some y) \<Rightarrow> x \<le> y | _ \<Rightarrow> False)"

text \<open>Midnight (UTC) of a calendar day; the month counts from 0 as in JavaScript.\<close>

definition DateUTC :: "int \<Rightarrow> int \<Rightarrow> int \<Rightarrow> date" where
  "DateUTC y m d = TimeClip (MakeDate (MakeDay y m d) 0)"

section \<open>The application controller: next payment date\<close>

text \<open>
  \<^verbatim>\<open>
  function calculateNextPaymentDate(startDate: Date): Date {
    const today = new Date();
    const nextPaymentDate = new Date(startDate);
    while (nextPaymentDate <= today) {
      nextPaymentDate.setMonth(nextPaymentDate.getMonth() + 1);
    }
    return nextPaymentDate;
  }
  \<close>
  The clock read by \<^verbatim>\<open>new Date()\<close> is the first argument of the model. The loop body is
  \<open>advanceMonth\<close>; the loop is \<open>nextPaymentLoop\<close>, a total function whose termination is
  proved below.
\<close>

definition advanceMonth :: "date \<Rightarrow> date" where
  "advanceMonth d = setMonth d (map_option (\<lambda>m. m + 1) (getMonth d))"

function nextPaymentLoop :: "date \<Rightarrow> date \<Rightarrow> date" where
  "nextPaymentLoop today d =
     (if date_le d today then nextPaymentLoop today (advanceMonth d) else d)"
  by pat_completeness auto

definition calculateNextPaymentDate :: "date \<Rightarrow> date \<Rightarrow> date" where
  "calculateNextPaymentDate today startDate = nextPaymentLoop today startDate"

section \<open>Strings, request values and numbers\<close>

text \<open>
  Strings are byte strings. \<^verbatim>\<open>s.split(c)\<close> with a one-character separator always returns
  at least one piece: the empty string splits into one empty piece.
\<close>

fun split_on :: "char \<Rightarrow> string \<Rightarrow> string list" where
  "split_on c [] = [[]]"
| "split_on c (x # xs) =
     (if x = c then [] # split_on c xs
      else (case split_on c xs of
              [] \<Rightarrow> [[x]]
            | w # ws \<Rightarrow> (x # w) # ws))"

text \<open>\<^verbatim>\<open>xs.join(",")\<close>.\<close>

fun join_comma :: "string list \<Rightarrow> string" where
  "join_comma [] = []"
| "join_comma [x] = x"
| "join_comma (x # y # ys) = x @ '','' @ join_comma (y # ys)"

text \<open>\<^verbatim>\<open>s.toLowerCase()\<close> on the ASCII letters; other bytes are kept.\<close>

definition lower_char :: "char \<Rightarrow> char" where
  "lower_char c =
     (let n = (of_char c :: nat) in if 65 \<le> n \<and> n \<le> 90 then char_of (n + 32) else c)"

definition toLowerCase :: "string \<Rightarrow> string" where
  "toLowerCase s = map lower_char s"

text \<open>
  A value of \<^verbatim>\<open>req.query\<close> as Express parses it: a string, an array of strings (a
  parameter given several times) or a nested object. \<open>None\<close> is \<^verbatim>\<open>undefined\<close>, the
  parameter being absent.
\<close>

datatype qvalue = QStr string | QArr "string list" | QObj

text \<open>Truthiness, as tested by \<^verbatim>\<open>if (v)\<close> and \<^verbatim>\<open>v && w\<close>.\<close>

fun truthy :: "qvalue option \<Rightarrow> bool" where
  "truthy None = False"
| "truthy (Some (QStr s)) = (s \<noteq> [])"
| "truthy (Some (QArr xs)) = True"
| "truthy (Some QObj) = True"

text \<open>\<^verbatim>\<open>String(v)\<close>.\<close>

fun String :: "qvalue option \<Rightarrow> string" where
  "String None = ''undefined''"
| "String (Some (QStr s)) = s"
| "String (Some (QArr xs)) = join_comma xs"
| "String (Some QObj) = ''[object Object]''"

text \<open>
  JavaScript numbers, as far as the controllers need them: NaN, the two infinities and the
  finite values, taken as exact rationals (the rounding of doubles is not modelled).
\<close>

datatype jsnum = NaN | PosInfinity | NegInfinity | Fin rat

definition isDigit :: "char \<Rightarrow> bool" where
  "isDigit c = (let n = (of_char c :: nat) in 48 \<le> n \<and> n \<le> 57)"

definition isWhiteSpace :: "char \<Rightarrow> bool" where
  "isWhiteSpace c = (let n = (of_char c :: nat) in (9 \<le> n \<and> n \<le> 13) \<or> n = 32)"

definition digitsValue :: "string \<Rightarrow> nat" where
  "digitsValue ds = foldl (\<lambda>acc c. 10 * acc + (of_char c - 48)) 0 ds"

definition pow10 :: "int \<Rightarrow> rat" where
  "pow10 e = (if 0 \<le> e then 10 ^ nat e else 1 / 10 ^ nat (- e))"

text \<open>The exponent part of a decimal literal: \<^verbatim>\<open>e\<close> or \<^verbatim>\<open>E\<close>, a sign, digits.\<close>

definition exponentPart :: "string \<Rightarrow> int" where
  "exponentPart s =
     (case s of
        [] \<Rightarrow> 0
      | c # r \<Rightarrow>
         if c = CHR ''e'' \<or> c = CHR ''E'' then
           (case r of
              [] \<Rightarrow> 0
            | g # r' \<Rightarrow>
               if g = CHR ''-'' then
                 (if takeWhile isDigit r' = [] then 0
                  else - int (digitsValue (takeWhile isDigit r')))
               else if g = CHR ''+'' then int (digitsValue (takeWhile isDigit r'))
               else int (digitsValue (takeWhile isDigit r)))
         else 0)"

text \<open>
  \<^verbatim>\<open>parseFloat(s)\<close>: leading white space is skipped and the longest prefix that is a
  decimal literal is read; what follows it is ignored. With no such prefix the result is
  NaN.
\<close>

definition unsignedDecimal :: "string \<Rightarrow> rat option" where
  "unsignedDecimal s =
     (let ip = takeWhile isDigit s; r1 = dropWhile isDigit s;
          fp = (case r1 of [] \<Rightarrow> [] | c # r \<Rightarrow> if c = CHR ''.'' then takeWhile isDigit r else []);
          r2 = (case r1 of [] \<Rightarrow> [] | c # r \<Rightarrow> if c = CHR ''.'' then dropWhile isDigit r else r1)
      in if ip = [] \<and> fp = [] then None
         else Some ((of_nat (digitsValue ip) + of_nat (digitsValue fp) / 10 ^ length fp)
                    * pow10 (exponentPart r2)))"

definition parseFloat :: "string \<Rightarrow> jsnum" where
  "parseFloat s =
     (let t = dropWhile isWhiteSpace s;
          neg = (case t of [] \<Rightarrow> False | c # _ \<Rightarrow> c = CHR ''-'');
          u = (case t of [] \<Rightarrow> [] | c # r \<Rightarrow> if c = CHR ''-'' \<or> c = CHR ''+'' then r else t)
      in if take 8 u = ''Infinity'' then (if neg then NegInfinity else PosInfinity)
         else (case unsignedDecimal u of
                 None \<Rightarrow> NaN
               | Some v \<Rightarrow> Fin (if neg then - v else v)))"

text \<open>
  \<^verbatim>\<open>parseInt(s)\<close> without a radix: white space and a sign are skipped, then the decimal
  digits are read (hexadecimal digits after \<^verbatim>\<open>0x\<close>); with no digit the result is NaN.
\<close>

definition hexDigit :: "char \<Rightarrow> nat option" where
  "hexDigit c =
     (let n = (of_char c :: nat)
      in if 48 \<le> n \<and> n \<le> 57 then Some (n - 48)
         else if 65 \<le> n \<and> n \<le> 70 then Some (n - 55)
         else if 97 \<le> n \<and> n \<le> 102 then Some (n - 87)
         else None)"

definition hexValue :: "string \<Rightarrow> nat" where
  "hexValue ds = foldl (\<lambda>acc c. 16 * acc + (case hexDigit c of None \<Rightarrow> 0 | Some v \<Rightarrow> v)) 0 ds"

definition parseInt :: "string \<Rightarrow> jsnum" where
  "parseInt s =
     (let t = dropWhile isWhiteSpace s;
          neg = (case t of [] \<Rightarrow> False | c # _ \<Rightarrow> c = CHR ''-'');
          u = (case t of [] \<Rightarrow> [] | c # r \<Rightarrow> if c = CHR ''-'' \<or> c = CHR ''+'' then r else t);
          hex = (take 2 u = ''0x'' \<or> take 2 u = ''0X'');
          ds = (if hex then takeWhile (\<lambda>c. hexDigit c \<noteq> None) (drop 2 u)
                else takeWhile isDigit u)
      in if ds = [] then NaN
         else let v = (if hex then int (hexValue ds) else int (digitsValue ds))
              in Fin (of_int (if neg then - v else v)))"

text \<open>
  A field of a multipart form is a string, or absent: \<^verbatim>\<open>parseFloat(undefined)\<close> and
  \<^verbatim>\<open>parseInt(undefined)\<close> read the text \<^verbatim>\<open>undefined\<close> and return NaN.
\<close>

definition parseFloat_field :: "string option \<Rightarrow> jsnum" where
  "parseFloat_field v = (case v of None \<Rightarrow> parseFloat ''undefined'' | Some s \<Rightarrow> parseFloat s)"

definition parseInt_field :: "string option \<Rightarrow> jsnum" where
  "parseInt_field v = (case v of None \<Rightarrow> parseInt ''undefined'' | Some s \<Rightarrow> parseInt s)"

section \<open>Responses\<close>

text \<open>
  A handler answers with \<^verbatim>\<open>res.status(n).json(payload)\<close> (\<^verbatim>\<open>res.json\<close> is status 200) or
  with \<^verbatim>\<open>res.status(n).json({ message })\<close>.
\<close>

datatype 'a response = Json nat 'a | Message nat string

fun status_of :: "'a response \<Rightarrow> nat" where
  "status_of (Json n _) = n"
| "status_of (Message n _) = n"

section \<open>The authorization middleware\<close>

text \<open>
  The claims of a decoded token are JSON values; \<open>JOther\<close> stands for arrays and objects.
  A claim that is absent is \<^verbatim>\<open>undefined\<close>, here \<open>None\<close>.
\<close>

datatype json = JNull | JBool bool | JNum rat | JStr string | JOther

fun json_truthy :: "json \<Rightarrow> bool" where
  "json_truthy JNull = False"
| "json_truthy (JBool b) = b"
| "json_truthy (JNum n) = (n \<noteq> 0)"
| "json_truthy (JStr s) = (s \<noteq> [])"
| "json_truthy JOther = True"

type_synonym claims = "string \<Rightarrow> json option"

record user =
  user_id :: "json option"
  user_role :: json

text \<open>What the middleware does with the request: it answers, or it calls \<^verbatim>\<open>next()\<close>.\<close>

datatype outcome = Status nat string | Next

text \<open>\<^verbatim>\<open>req.headers.authorization?.split(" ")[1]\<close>\<close>

definition bearerToken :: "string option \<Rightarrow> string option" where
  "bearerToken authorization =
     (case authorization of
        None \<Rightarrow> None
      | Some h \<Rightarrow>
         (case split_on CHR '' '' h of
            _ # t # _ \<Rightarrow> Some t
          | _ \<Rightarrow> None))"

text \<open>
  \<^verbatim>\<open>jwt.decode\<close> belongs to a library and is a parameter: \<open>None\<close> when it returns
  \<^verbatim>\<open>null\<close> or throws, which the \<^verbatim>\<open>catch\<close> block answers alike, since reading a claim of
  \<^verbatim>\<open>null\<close> throws as well. The result is the new \<^verbatim>\<open>req.user\<close> and the outcome.
  \<^verbatim>\<open>userRole.toLowerCase()\<close> throws inside the \<^verbatim>\<open>try\<close> block when the role claim is a
  truthy value that is not a string. \<open>role_claim\<close> is
  \<^verbatim>\<open>decoded["custom:role"] || ""\<close>.
\<close>

definition role_claim :: "claims \<Rightarrow> json" where
  "role_claim decoded =
     (case decoded ''custom:role'' of
        None \<Rightarrow> JStr []
      | Some v \<Rightarrow> if json_truthy v then v else JStr [])"

definition authMiddleware ::
  "(string \<Rightarrow> claims option) \<Rightarrow> string list \<Rightarrow> string option \<Rightarrow> user option \<times> outcome" where
  "authMiddleware jwt_decode allowedRoles authorization =
     (case bearerToken authorization of
        None \<Rightarrow> (None, Status 401 ''Unauthorized'')
      | Some token \<Rightarrow>
         if token = [] then (None, Status 401 ''Unauthorized'')
         else
           (case jwt_decode token of
              None \<Rightarrow> (None, Status 400 ''Invalid token'')
            | Some decoded \<Rightarrow>
               (let userRole = role_claim decoded;
                    u = \<lparr>user_id = decoded ''sub'', user_role = userRole\<rparr>
                in (case userRole of
                      JStr r \<Rightarrow>
                        if toLowerCase r \<in> set allowedRoles then (Some u, Next)
                        else (Some u, Status 403 ''Forbidden'')
                    | _ \<Rightarrow> (Some u, Status 400 ''Invalid token'')))))"

section \<open>The property controller: the query builder\<close>

record propertiesQuery =
  favoriteIds :: "qvalue option"
  priceMin :: "qvalue option"
  priceMax :: "qvalue option"
  beds :: "qvalue option"
  baths :: "qvalue option"
  propertyType :: "qvalue option"
  squareFeetMin :: "qvalue option"
  squareFeetMax :: "qvalue option"
  amenities :: "qvalue option"
  availableFrom :: "qvalue option"
  latitude :: "qvalue option"
  longitude :: "qvalue option"

text \<open>
  The fragments pushed on \<^verbatim>\<open>whereConditions\<close>, one constructor for each
  \<^verbatim>\<open>Prisma.sql\<close> template of the source, with the values bound in it. Where the source
  binds \<^verbatim>\<open>Number(v)\<close> the constructor keeps \<open>v\<close>.
\<close>

datatype condition =
    IdIn "string list"
  | PricePerMonthGe qvalue
  | PricePerMonthLe qvalue
  | BedsGe qvalue
  | BathsGe qvalue
  | SquareFeetGe qvalue
  | SquareFeetLe qvalue
  | PropertyTypeEq qvalue
  | AmenitiesContain "string list"
  | LeaseStartsOnOrBefore int
  | WithinDegrees jsnum jsnum rat

text \<open>\<^verbatim>\<open>if (v) { ... }\<close> around a push that uses \<open>v\<close>.\<close>

definition when_set :: "qvalue option \<Rightarrow> (qvalue \<Rightarrow> condition list) \<Rightarrow> condition list" where
  "when_set v f = (case v of None \<Rightarrow> [] | Some x \<Rightarrow> if truthy v then f x else [])"

text \<open>
  \<^verbatim>\<open>(v as string).split(",")\<close> throws a TypeError when the value is an array or an object,
  which have no \<^verbatim>\<open>split\<close>.
\<close>

definition split_throws :: "qvalue option \<Rightarrow> bool" where
  "split_throws v = (case v of Some (QStr s) \<Rightarrow> False | Some _ \<Rightarrow> True | None \<Rightarrow> False)"

definition pieces :: "qvalue \<Rightarrow> string list" where
  "pieces v = (case v of QStr s \<Rightarrow> split_on CHR '','' s | _ \<Rightarrow> [])"

text \<open>
  The builder, in the order of the source. \<open>DateParse\<close> is \<^verbatim>\<open>new Date(s)\<close> on a string,
  whose parsing the language leaves to the implementation. The radius is the constant 1000
  km, divided by 111.32 km for a degree.
\<close>

definition whereConditions ::
  "(string \<Rightarrow> date) \<Rightarrow> propertiesQuery \<Rightarrow> string + condition list" where
  "whereConditions DateParse q =
     (if truthy (favoriteIds q) \<and> split_throws (favoriteIds q)
      then Inl ''favoriteIds.split is not a function''
      else if truthy (amenities q) \<and> amenities q \<noteq> Some (QStr ''any'') \<and> split_throws (amenities q)
      then Inl ''amenities.split is not a function''
      else Inr
        (when_set (favoriteIds q) (\<lambda>v. [IdIn (pieces v)])
         @ when_set (priceMin q) (\<lambda>v. [PricePerMonthGe v])
         @ when_set (priceMax q) (\<lambda>v. [PricePerMonthLe v])
         @ when_set (beds q) (\<lambda>v. if v \<noteq> QStr ''any'' then [BedsGe v] else [])
         @ when_set (baths q) (\<lambda>v. if v \<noteq> QStr ''any'' then [BathsGe v] else [])
         @ when_set (squareFeetMin q) (\<lambda>v. [SquareFeetGe v])
         @ when_set (squareFeetMax q) (\<lambda>v. [SquareFeetLe v])
         @ when_set (propertyType q) (\<lambda>v. if v \<noteq> QStr ''any'' then [PropertyTypeEq v] else [])
         @ when_set (amenities q) (\<lambda>v. if v \<noteq> QStr ''any'' then [AmenitiesContain (pieces v)] else [])
         @ when_set (availableFrom q)
             (\<lambda>v. case v of
                     QStr s \<Rightarrow> (case DateParse s of None \<Rightarrow> [] | Some t \<Rightarrow> [LeaseStartsOnOrBefore t])
                   | _ \<Rightarrow> [])
         @ (if truthy (latitude q) \<and> truthy (longitude q)
            then [WithinDegrees (parseFloat (String (longitude q))) (parseFloat (String (latitude q)))
                    (1000 / (11132 / 100))]
            else [])))"

text \<open>
  The query sent to the database: the join of Property and Location, with a
  \<^verbatim>\<open>WHERE\<close> clause of the conditions joined by \<^verbatim>\<open>AND\<close>, or \<^verbatim>\<open>Prisma.empty\<close> in its
  place when there is no condition.
\<close>

datatype whereSql = Empty | Where "condition list"

datatype sqlQuery = SelectPropertyJoinLocation whereSql

definition completeQuery :: "condition list \<Rightarrow> sqlQuery" where
  "completeQuery conds =
     SelectPropertyJoinLocation (if length conds > 0 then Where conds else Empty)"

definition unfilteredQuery :: sqlQuery where
  "unfilteredQuery = SelectPropertyJoinLocation Empty"

text \<open>
  \<^verbatim>\<open>prisma.$queryRaw\<close> is the database: a parameter that answers a query with rows or
  throws. The handler answers 200 with the rows, or 500 with the message of what was
  thrown.
\<close>

definition getProperties ::
  "(sqlQuery \<Rightarrow> string + 'row list) \<Rightarrow> (string \<Rightarrow> date) \<Rightarrow> propertiesQuery \<Rightarrow> 'row list response" where
  "getProperties queryRaw DateParse q =
     (case whereConditions DateParse q of
        Inl msg \<Rightarrow> Message 500 (''Error retrieving properties: '' @ msg)
      | Inr conds \<Rightarrow>
         (case queryRaw (completeQuery conds) of
            Inl msg \<Rightarrow> Message 500 (''Error retrieving properties: '' @ msg)
          | Inr properties \<Rightarrow> Json 200 properties))"

text \<open>The request parameters, and the parameters a condition is built from.\<close>

datatype parameter =
    FavoriteIds | PriceMin | PriceMax | Beds | Baths | PropertyType
  | SquareFeetMin | SquareFeetMax | Amenities | AvailableFrom | Latitude | Longitude

fun parameter_value :: "propertiesQuery \<Rightarrow> parameter \<Rightarrow> qvalue option" where
  "parameter_value q FavoriteIds = favoriteIds q"
| "parameter_value q PriceMin = priceMin q"
| "parameter_value q PriceMax = priceMax q"
| "parameter_value q Beds = beds q"
| "parameter_value q Baths = baths q"
| "parameter_value q PropertyType = propertyType q"
| "parameter_value q SquareFeetMin = squareFeetMin q"
| "parameter_value q SquareFeetMax = squareFeetMax q"
| "parameter_value q Amenities = amenities q"
| "parameter_value q AvailableFrom = availableFrom q"
| "parameter_value q Latitude = latitude q"
| "parameter_value q Longitude = longitude q"

fun condition_parameters :: "condition \<Rightarrow> parameter list" where
  "condition_parameters (IdIn _) = [FavoriteIds]"
| "condition_parameters (PricePerMonthGe _) = [PriceMin]"
| "condition_parameters (PricePerMonthLe _) = [PriceMax]"
| "condition_parameters (BedsGe _) = [Beds]"
| "condition_parameters (BathsGe _) = [Baths]"
| "condition_parameters (SquareFeetGe _) = [SquareFeetMin]"
| "condition_parameters (SquareFeetLe _) = [SquareFeetMax]"
| "condition_parameters (PropertyTypeEq _) = [PropertyType]"
| "condition_parameters (AmenitiesContain _) = [Amenities]"
| "condition_parameters (LeaseStartsOnOrBefore _) = [AvailableFrom]"
| "condition_parameters (WithinDegrees _ _ _) = [Latitude, Longitude]"

definition no_filters :: propertiesQuery where
  "no_filters =
     \<lparr>favoriteIds = None, priceMin = None, priceMax = None, beds = None, baths = None,
      propertyType = None, squareFeetMin = None, squareFeetMax = None, amenities = None,
      availableFrom = None, latitude = None, longitude = None\<rparr>"

section \<open>The database\<close>

text \<open>
  Modelled from the spec: the Prisma schema is not among the sources. The rows have the
  fields that section 3 of the specification lists and that the controllers read and
  write. The tables the controllers read and write, each a list of rows in insertion order, and
  the sequences from which the database numbers new rows. \<open>prop_tenants\<close> is the relation
  between a property and the tenants living in it, kept as the set of their identifiers.
  \<open>prop_data\<close> holds the fields of the creation form that the controller passes on as
  they are.
\<close>

record tenant =
  tenant_cognitoId :: string
  tenant_name :: string
  tenant_email :: string
  tenant_phoneNumber :: string

record manager =
  manager_cognitoId :: string
  manager_name :: string
  manager_email :: string
  manager_phoneNumber :: string

record location =
  loc_id :: nat
  loc_address :: string
  loc_city :: string
  loc_state :: string
  loc_country :: string
  loc_postalCode :: string
  loc_coordinates :: "jsnum \<times> jsnum"

record property =
  prop_id :: nat
  prop_data :: "(string \<times> string) list"
  prop_photoUrls :: "string list"
  prop_locationId :: nat
  prop_managerCognitoId :: string
  prop_amenities :: "string list"
  prop_highlights :: "string list"
  prop_isPetsAllowed :: bool
  prop_isParkingIncluded :: bool
  prop_pricePerMonth :: jsnum
  prop_securityDeposit :: jsnum
  prop_applicationFee :: jsnum
  prop_beds :: jsnum
  prop_baths :: jsnum
  prop_squareFeet :: jsnum
  prop_tenants :: "string set"

record lease =
  lease_id :: nat
  lease_startDate :: int
  lease_endDate :: int
  lease_rent :: jsnum
  lease_deposit :: jsnum
  lease_propertyId :: nat
  lease_tenantCognitoId :: string

record application =
  app_id :: nat
  app_applicationDate :: int
  app_status :: string
  app_propertyId :: nat
  app_tenantCognitoId :: string
  app_name :: string
  app_email :: string
  app_phoneNumber :: string
  app_message :: string
  app_leaseId :: "nat option"

record db =
  db_tenants :: "tenant list"
  db_managers :: "manager list"
  db_locations :: "location list"
  db_properties :: "property list"
  db_leases :: "lease list"
  db_applications :: "application list"
  db_locationSeq :: nat
  db_propertySeq :: nat
  db_leaseSeq :: nat
  db_applicationSeq :: nat

text \<open>
  A database call returns a value and the new database, or throws: \<open>Inl\<close> carries the
  message and the database as it is at that moment, since what was written before the
  failure stays written unless a transaction takes it back.
\<close>

type_synonym 'a dbcall = "db \<Rightarrow> (string \<times> db) + ('a \<times> db)"

definition returnDb :: "'a \<Rightarrow> 'a dbcall" where
  "returnDb x d = Inr (x, d)"

definition throwDb :: "string \<Rightarrow> 'a dbcall" where
  "throwDb msg d = Inl (msg, d)"

definition bindDb :: "'a dbcall \<Rightarrow> ('a \<Rightarrow> 'b dbcall) \<Rightarrow> 'b dbcall" where
  "bindDb m f d = (case m d of Inl e \<Rightarrow> Inl e | Inr (x, d') \<Rightarrow> f x d')"

text \<open>
  \<^verbatim>\<open>prisma.$transaction(async (prisma) => { ... })\<close>: when the body throws, the writes of
  the body are rolled back and the exception goes on to the caller.
\<close>

definition transaction :: "'a dbcall \<Rightarrow> 'a dbcall" where
  "transaction body d = (case body d of Inl (msg, _) \<Rightarrow> Inl (msg, d) | Inr r \<Rightarrow> Inr r)"

text \<open>
  A call can also fail for reasons outside the data (a refused connection, a value the
  client library rejects). The environment decides it: \<open>fault\<close> is the message thrown, or
  \<open>None\<close> for a call that goes through.
\<close>

definition failing :: "string option \<Rightarrow> 'a dbcall \<Rightarrow> 'a dbcall" where
  "failing fault call = (case fault of Some msg \<Rightarrow> throwDb msg | None \<Rightarrow> call)"

type_synonym faults = "nat \<Rightarrow> string option"

definition no_faults :: faults where
  "no_faults = (\<lambda>_. None)"

subsection \<open>Reads\<close>

definition find_property :: "db \<Rightarrow> nat \<Rightarrow> property option" where
  "find_property d pid = find (\<lambda>p. prop_id p = pid) (db_properties d)"

definition find_tenant :: "db \<Rightarrow> string \<Rightarrow> tenant option" where
  "find_tenant d cid = find (\<lambda>t. tenant_cognitoId t = cid) (db_tenants d)"

definition find_manager :: "db \<Rightarrow> string \<Rightarrow> manager option" where
  "find_manager d cid = find (\<lambda>m. manager_cognitoId m = cid) (db_managers d)"

definition find_location :: "db \<Rightarrow> nat \<Rightarrow> location option" where
  "find_location d lid = find (\<lambda>l. loc_id l = lid) (db_locations d)"

definition find_lease :: "db \<Rightarrow> nat \<Rightarrow> lease option" where
  "find_lease d lid = find (\<lambda>l. lease_id l = lid) (db_leases d)"

definition find_application :: "db \<Rightarrow> nat \<Rightarrow> application option" where
  "find_application d aid = find (\<lambda>a. app_id a = aid) (db_applications d)"

subsection \<open>Writes\<close>

text \<open>
  \<^verbatim>\<open>prisma.lease.create\<close>: the row gets the next number of the sequence. The insert is
  refused when the property or the tenant it refers to does not exist, and when a date is
  invalid.
\<close>

record leaseData =
  ld_startDate :: date
  ld_endDate :: date
  ld_rent :: jsnum
  ld_deposit :: jsnum
  ld_propertyId :: nat
  ld_tenantCognitoId :: string

definition lease_create :: "leaseData \<Rightarrow> lease dbcall" where
  "lease_create data d =
     (case (ld_startDate data, ld_endDate data) of
        (Some s, Some e) \<Rightarrow>
          if find_property d (ld_propertyId data) = None
             \<or> find_tenant d (ld_tenantCognitoId data) = None
          then Inl (''Foreign key constraint failed'', d)
          else
            (let l = \<lparr>lease_id = db_leaseSeq d, lease_startDate = s, lease_endDate = e,
                      lease_rent = ld_rent data, lease_deposit = ld_deposit data,
                      lease_propertyId = ld_propertyId data,
                      lease_tenantCognitoId = ld_tenantCognitoId data\<rparr>
             in Inr (l, d\<lparr>db_leases := db_leases d @ [l], db_leaseSeq := Suc (db_leaseSeq d)\<rparr>))
      | _ \<Rightarrow> Inl (''Invalid value for argument: provided Date object is invalid'', d))"

text \<open>
  \<^verbatim>\<open>prisma.property.update({ where: { id }, data: { tenants: { connect: { cognitoId } } } })\<close>:
  the property and the tenant must exist.
\<close>

definition property_connect_tenant :: "nat \<Rightarrow> string \<Rightarrow> unit dbcall" where
  "property_connect_tenant pid cid d =
     (if find_property d pid = None \<or> find_tenant d cid = None
      then Inl (''Record to update not found'', d)
      else Inr ((), d\<lparr>db_properties :=
                  map (\<lambda>p. if prop_id p = pid then p\<lparr>prop_tenants := insert cid (prop_tenants p)\<rparr> else p)
                      (db_properties d)\<rparr>))"

text \<open>
  \<^verbatim>\<open>prisma.application.update({ where: { id }, data })\<close>: \<open>upd\<close> sets the fields of
  \<^verbatim>\<open>data\<close>.
\<close>

definition application_update :: "nat \<Rightarrow> (application \<Rightarrow> application) \<Rightarrow> unit dbcall" where
  "application_update aid upd d =
     (if find_application d aid = None
      then Inl (''Record to update not found'', d)
      else Inr ((), d\<lparr>db_applications :=
                  map (\<lambda>a. if app_id a = aid then upd a else a) (db_applications d)\<rparr>))"

text \<open>
  \<^verbatim>\<open>prisma.application.create\<close>: the row gets the next number of the sequence; the
  property, the tenant and the lease it connects must exist.
\<close>

definition application_create :: "application \<Rightarrow> application dbcall" where
  "application_create data d =
     (if find_property d (app_propertyId data) = None
         \<or> find_tenant d (app_tenantCognitoId data) = None
         \<or> (case app_leaseId data of None \<Rightarrow> False | Some l \<Rightarrow> find_lease d l = None)
      then Inl (''No record was found for a connect'', d)
      else
        (let a = data\<lparr>app_id := db_applicationSeq d\<rparr>
         in Inr (a, d\<lparr>db_applications := db_applications d @ [a],
                       db_applicationSeq := Suc (db_applicationSeq d)\<rparr>)))"

section \<open>The application controller\<close>

subsection \<open>updateApplicationStatus\<close>

text \<open>
  An application as \<^verbatim>\<open>findUnique\<close> returns it with
  \<^verbatim>\<open>include: { property: true, tenant: true, lease: true }\<close>.
\<close>

record appView =
  av_app :: application
  av_property :: "property option"
  av_tenant :: "tenant option"
  av_lease :: "lease option"

definition view_application :: "db \<Rightarrow> application \<Rightarrow> appView" where
  "view_application d a =
     \<lparr>av_app = a,
      av_property = find_property d (app_propertyId a),
      av_tenant = find_tenant d (app_tenantCognitoId a),
      av_lease = (case app_leaseId a of None \<Rightarrow> None | Some l \<Rightarrow> find_lease d l)\<rparr>"

definition application_findUnique :: "nat \<Rightarrow> appView option dbcall" where
  "application_findUnique aid d = Inr (map_option (view_application d) (find_application d aid), d)"

text \<open>
  The start and end of a new lease: \<^verbatim>\<open>new Date()\<close> and
  \<^verbatim>\<open>new Date(new Date().setFullYear(new Date().getFullYear() + 1))\<close>, the clock being read
  once, as \<open>now\<close>.
\<close>

definition oneYearFrom :: "int \<Rightarrow> date" where
  "oneYearFrom now = setFullYear (Some now) (map_option (\<lambda>y. y + 1) (getFullYear (Some now)))"

text \<open>
  The handler. \<open>aid\<close> is \<^verbatim>\<open>Number(req.params.id)\<close> and \<open>status\<close> is
  \<^verbatim>\<open>req.body.status\<close>. The database calls are numbered in the order of the source: 0 the
  first \<^verbatim>\<open>findUnique\<close>, 1 \<^verbatim>\<open>lease.create\<close>, 2 \<^verbatim>\<open>property.update\<close>, 3 the
  \<^verbatim>\<open>application.update\<close> of the approval, 4 the \<^verbatim>\<open>application.update\<close> of the other
  branch, 5 the last \<^verbatim>\<open>findUnique\<close>. No transaction surrounds them. Reading
  \<^verbatim>\<open>application.property.pricePerMonth\<close> throws when the property is missing.
\<close>

definition updateApplicationStatus ::
  "faults \<Rightarrow> int \<Rightarrow> nat \<Rightarrow> string \<Rightarrow> db \<Rightarrow> appView option response \<times> db" where
  "updateApplicationStatus flt now aid status d =
     (case
        bindDb (failing (flt 0) (application_findUnique aid)) (\<lambda>application.
          case application of
            None \<Rightarrow> returnDb (Message 404 ''Application not found.'')
          | Some v \<Rightarrow>
              bindDb
                (if status = ''Approved'' then
                   (case av_property v of
                      None \<Rightarrow> throwDb ''Cannot read properties of null''
                    | Some p \<Rightarrow>
                        bindDb (failing (flt 1) (lease_create
                                  \<lparr>ld_startDate = Some now,
                                   ld_endDate = oneYearFrom now,
                                   ld_rent = prop_pricePerMonth p,
                                   ld_deposit = prop_securityDeposit p,
                                   ld_propertyId = app_propertyId (av_app v),
                                   ld_tenantCognitoId = app_tenantCognitoId (av_app v)\<rparr>))
                          (\<lambda>newLease.
                        bindDb (failing (flt 2) (property_connect_tenant
                                  (app_propertyId (av_app v)) (app_tenantCognitoId (av_app v))))
                          (\<lambda>_.
                        failing (flt 3) (application_update aid
                          (\<lambda>a. a\<lparr>app_status := status, app_leaseId := Some (lease_id newLease)\<rparr>)))))
                 else
                   failing (flt 4) (application_update aid (\<lambda>a. a\<lparr>app_status := status\<rparr>)))
                (\<lambda>_.
              bindDb (failing (flt 5) (application_findUnique aid)) (\<lambda>updatedApplication.
              returnDb (Json 200 updatedApplication)))) d
      of
        Inl (msg, d') \<Rightarrow> (Message 500 (''Error updating application status: '' @ msg), d')
      | Inr (r, d') \<Rightarrow> (r, d'))"

text \<open>
  The database after \<^verbatim>\<open>application.update({ where: { id }, data: { status } })\<close>.
\<close>

definition set_status :: "nat \<Rightarrow> string \<Rightarrow> db \<Rightarrow> db" where
  "set_status aid status d =
     d\<lparr>db_applications :=
         map (\<lambda>x. if app_id x = aid then x\<lparr>app_status := status\<rparr> else x) (db_applications d)\<rparr>"

subsection \<open>createApplication\<close>

text \<open>
  The body of the request; \<open>ca_applicationDate\<close> is \<^verbatim>\<open>new Date(applicationDate)\<close>. The
  source connects the tenant of the lease and of the application through
  \<^verbatim>\<open>connect: { id: tenantCognitoId }\<close>; the model looks the tenant up by that value.
\<close>

record createApplicationReq =
  ca_applicationDate :: date
  ca_status :: string
  ca_propertyId :: nat
  ca_tenantCognitoId :: string
  ca_name :: string
  ca_email :: string
  ca_phoneNumber :: string
  ca_message :: string

text \<open>
  Call 0 is \<^verbatim>\<open>property.findUnique\<close>; calls 1 and 2, \<^verbatim>\<open>lease.create\<close> and
  \<^verbatim>\<open>application.create\<close>, run inside \<^verbatim>\<open>prisma.$transaction\<close>, whose commit is call 3.
\<close>

definition createApplication ::
  "faults \<Rightarrow> int \<Rightarrow> createApplicationReq \<Rightarrow> db \<Rightarrow> appView response \<times> db" where
  "createApplication flt now req d =
     (case
        bindDb (failing (flt 0) (\<lambda>d. Inr (find_property d (ca_propertyId req), d))) (\<lambda>property.
          case property of
            None \<Rightarrow> returnDb (Message 404 ''Property not found.'')
          | Some p \<Rightarrow>
              bindDb
                (transaction
                   (bindDb (failing (flt 1) (lease_create
                              \<lparr>ld_startDate = Some now,
                               ld_endDate = oneYearFrom now,
                               ld_rent = prop_pricePerMonth p,
                               ld_deposit = prop_securityDeposit p,
                               ld_propertyId = ca_propertyId req,
                               ld_tenantCognitoId = ca_tenantCognitoId req\<rparr>))
                      (\<lambda>lease.
                    bindDb (failing (flt 2)
                              (case ca_applicationDate req of
                                 None \<Rightarrow> throwDb ''Invalid value for argument: provided Date object is invalid''
                               | Some t \<Rightarrow>
                                   application_create
                                     \<lparr>app_id = 0, app_applicationDate = t, app_status = ca_status req,
                                      app_propertyId = ca_propertyId req,
                                      app_tenantCognitoId = ca_tenantCognitoId req,
                                      app_name = ca_name req, app_email = ca_email req,
                                      app_phoneNumber = ca_phoneNumber req,
                                      app_message = ca_message req,
                                      app_leaseId = Some (lease_id lease)\<rparr>))
                      (\<lambda>application.
                    failing (flt 3) (\<lambda>d. Inr (view_application d application, d))))))
                (\<lambda>newApplication. returnDb (Json 201 newApplication))) d
      of
        Inl (msg, d') \<Rightarrow> (Message 500 (''Error creating application: '' @ msg), d')
      | Inr (r, d') \<Rightarrow> (r, d'))"

subsection \<open>listApplications\<close>

text \<open>
  The \<^verbatim>\<open>where\<close> clause of \<^verbatim>\<open>findMany\<close>: \<^verbatim>\<open>{}\<close>, \<^verbatim>\<open>{ tenantCognitoId }\<close> or
  \<^verbatim>\<open>{ property: { managerCognitoId } }\<close>.
\<close>

datatype appWhere = WhereAll | WhereTenant string | WhereManager string

definition whereClause :: "qvalue option \<Rightarrow> qvalue option \<Rightarrow> appWhere" where
  "whereClause userId userType =
     (if truthy userId \<and> truthy userType then
        (if userType = Some (QStr ''tenant'') then WhereTenant (String userId)
         else if userType = Some (QStr ''manager'') then WhereManager (String userId)
         else WhereAll)
      else WhereAll)"

fun app_matches :: "db \<Rightarrow> appWhere \<Rightarrow> application \<Rightarrow> bool" where
  "app_matches d WhereAll a = True"
| "app_matches d (WhereTenant cid) a = (app_tenantCognitoId a = cid)"
| "app_matches d (WhereManager cid) a =
     (case find_property d (app_propertyId a) of
        None \<Rightarrow> False
      | Some p \<Rightarrow> prop_managerCognitoId p = cid)"

text \<open>
  An application with
  \<^verbatim>\<open>include: { property: { include: { location: true, manager: true } }, tenant: true }\<close>.
\<close>

record appIncluded =
  ai_app :: application
  ai_property :: "property option"
  ai_location :: "location option"
  ai_manager :: "manager option"
  ai_tenant :: "tenant option"

definition include_application :: "db \<Rightarrow> application \<Rightarrow> appIncluded" where
  "include_application d a =
     (let p = find_property d (app_propertyId a)
      in \<lparr>ai_app = a,
          ai_property = p,
          ai_location = (case p of None \<Rightarrow> None | Some q \<Rightarrow> find_location d (prop_locationId q)),
          ai_manager = (case p of None \<Rightarrow> None | Some q \<Rightarrow> find_manager d (prop_managerCognitoId q)),
          ai_tenant = find_tenant d (app_tenantCognitoId a)\<rparr>)"

definition application_findMany :: "appWhere \<Rightarrow> appIncluded list dbcall" where
  "application_findMany w d =
     Inr (map (include_application d) (filter (app_matches d w) (db_applications d)), d)"

text \<open>
  \<^verbatim>\<open>prisma.lease.findFirst\<close> with \<^verbatim>\<open>orderBy: { startDate: "desc" }\<close>: of the leases of
  the tenant on the property, one whose start date is the greatest; among several with
  that start date the model takes the first of the table.
\<close>

definition matching_leases :: "db \<Rightarrow> string \<Rightarrow> nat \<Rightarrow> lease list" where
  "matching_leases d cid pid =
     filter (\<lambda>l. lease_tenantCognitoId l = cid \<and> lease_propertyId l = pid) (db_leases d)"

fun latest :: "lease list \<Rightarrow> lease option" where
  "latest [] = None"
| "latest (l # ls) =
     (case latest ls of
        None \<Rightarrow> Some l
      | Some m \<Rightarrow> if lease_startDate l < lease_startDate m then Some m else Some l)"

definition lease_findFirst :: "string \<Rightarrow> nat \<Rightarrow> lease option dbcall" where
  "lease_findFirst cid pid d = Inr (latest (matching_leases d cid pid), d)"

record formattedLease =
  fl_lease :: lease
  fl_nextPaymentDate :: date

record formattedApplication =
  fa_app :: application
  fa_property :: property
  fa_location :: location
  fa_address :: string
  fa_manager :: "manager option"
  fa_tenant :: "tenant option"
  fa_lease :: "formattedLease option"

text \<open>
  The function mapped over the applications; \<open>fault\<close> is the fault of its
  \<^verbatim>\<open>findFirst\<close>. Reading \<^verbatim>\<open>app.property.location.address\<close> throws when the property or
  its location is missing.
\<close>

definition formatApplication :: "string option \<Rightarrow> int \<Rightarrow> appIncluded \<Rightarrow> formattedApplication dbcall" where
  "formatApplication fault now app =
     bindDb (failing fault
               (lease_findFirst (app_tenantCognitoId (ai_app app)) (app_propertyId (ai_app app))))
       (\<lambda>lease.
          case (ai_property app, ai_location app) of
            (Some p, Some l) \<Rightarrow>
              returnDb
                \<lparr>fa_app = ai_app app, fa_property = p, fa_location = l,
                 fa_address = loc_address l, fa_manager = ai_manager app,
                 fa_tenant = ai_tenant app,
                 fa_lease =
                   (case lease of
                      None \<Rightarrow> None
                    | Some x \<Rightarrow>
                        Some \<lparr>fl_lease = x,
                              fl_nextPaymentDate =
                                calculateNextPaymentDate (Some now) (Some (lease_startDate x))\<rparr>)\<rparr>
          | _ \<Rightarrow> throwDb ''Cannot read properties of null'')"

text \<open>
  What \<open>formatApplication\<close> returns for an application: the application itself, with the
  latest matching lease and its next payment date, if there is one.
\<close>

definition attached :: "db \<Rightarrow> int \<Rightarrow> appIncluded \<Rightarrow> formattedApplication \<Rightarrow> bool" where
  "attached d now app f =
     (fa_app f = ai_app app
      \<and> fa_lease f =
        (case latest (matching_leases d (app_tenantCognitoId (ai_app app)) (app_propertyId (ai_app app))) of
           None \<Rightarrow> None
         | Some x \<Rightarrow> Some \<lparr>fl_lease = x,
               fl_nextPaymentDate = calculateNextPaymentDate (Some now) (Some (lease_startDate x))\<rparr>))"

text \<open>\<^verbatim>\<open>Promise.all(xs.map(f))\<close>, the call of the \<open>i\<close>-th element having number \<open>i\<close>.\<close>

fun mapDb :: "(nat \<Rightarrow> 'a \<Rightarrow> 'b dbcall) \<Rightarrow> nat \<Rightarrow> 'a list \<Rightarrow> 'b list dbcall" where
  "mapDb f i [] = returnDb []"
| "mapDb f i (x # xs) =
     bindDb (f i x) (\<lambda>y. bindDb (mapDb f (Suc i) xs) (\<lambda>ys. returnDb (y # ys)))"

text \<open>
  Call 0 is \<^verbatim>\<open>findMany\<close>; call \<open>i + 1\<close> is the \<^verbatim>\<open>findFirst\<close> of the \<open>i\<close>-th
  application found.
\<close>

definition listApplications ::
  "faults \<Rightarrow> int \<Rightarrow> qvalue option \<Rightarrow> qvalue option \<Rightarrow> db \<Rightarrow> formattedApplication list response" where
  "listApplications flt now userId userType d =
     (case
        bindDb (failing (flt 0) (application_findMany (whereClause userId userType)))
          (\<lambda>applications.
        bindDb (mapDb (\<lambda>i. formatApplication (flt (Suc i)) now) 0 applications)
          (\<lambda>formattedApplications.
        returnDb (Json 200 formattedApplications))) d
      of
        Inl (msg, _) \<Rightarrow> Message 500 (''Error retrieving applications: '' @ msg)
      | Inr (r, _) \<Rightarrow> r)"

section \<open>The property controller: createProperty\<close>

text \<open>
  The request: the uploaded files, and the fields of the multipart form, of which
  \<^verbatim>\<open>propertyData\<close> is the rest after the address and the manager are taken out: a list
  of names and values, read with \<open>map_of\<close>. Form fields are strings; a field the form does
  not have is \<open>None\<close>.
\<close>

record multerFile =
  file_originalname :: string
  file_mimetype :: string

record createPropertyReq =
  cp_files :: "multerFile list"
  cp_address :: string
  cp_city :: string
  cp_state :: string
  cp_country :: string
  cp_postalCode :: string
  cp_managerCognitoId :: string
  cp_propertyData :: "(string \<times> string) list"

text \<open>An entry of the geocoding service's answer; it gives \<^verbatim>\<open>lon\<close> and \<^verbatim>\<open>lat\<close> as strings.\<close>

record geoResult =
  geo_lon :: "string option"
  geo_lat :: "string option"

text \<open>
  \<^verbatim>\<open>
  const [longitude, latitude] =
    geocodingResponse.data[0]?.lon && geocodingResponse.data[0]?.lat
      ? [parseFloat(geocodingResponse.data[0]?.lon), parseFloat(geocodingResponse.data[0]?.lat)]
      : [0, 0];
  \<close>
\<close>

definition has_text :: "string option \<Rightarrow> bool" where
  "has_text v = (case v of None \<Rightarrow> False | Some s \<Rightarrow> s \<noteq> [])"

definition geocoded_point :: "geoResult list \<Rightarrow> jsnum \<times> jsnum" where
  "geocoded_point data =
     (case data of
        [] \<Rightarrow> (Fin 0, Fin 0)
      | g # _ \<Rightarrow>
          if has_text (geo_lon g) \<and> has_text (geo_lat g)
          then (parseFloat_field (geo_lon g), parseFloat_field (geo_lat g))
          else (Fin 0, Fin 0))"

text \<open>
  A geocoding answer that lacks a coordinate: it has no entry, or its first entry has no
  longitude or no latitude (or an empty one).
\<close>

definition lacks_coordinates :: "geoResult list \<Rightarrow> bool" where
  "lacks_coordinates data =
     (case data of
        [] \<Rightarrow> True
      | g # _ \<Rightarrow> \<not> has_text (geo_lon g) \<or> \<not> has_text (geo_lat g))"

text \<open>
  \<^verbatim>\<open>Promise.all(files.map(upload))\<close>: the URLs in the order of the files, or the first
  failure. The object store is a parameter: \<open>upload\<close> gives the URL of the stored file or
  the message of the failure.
\<close>

fun upload_all :: "(multerFile \<Rightarrow> string + string) \<Rightarrow> multerFile list \<Rightarrow> string + string list" where
  "upload_all upload [] = Inr []"
| "upload_all upload (f # fs) =
     (case upload f of
        Inl msg \<Rightarrow> Inl msg
      | Inr url \<Rightarrow>
          (case upload_all upload fs of
             Inl msg \<Rightarrow> Inl msg
           | Inr urls \<Rightarrow> Inr (url # urls)))"

text \<open>The \<^verbatim>\<open>INSERT INTO "Location" ... RETURNING\<close> of the source.\<close>

definition location_insert ::
  "string \<Rightarrow> string \<Rightarrow> string \<Rightarrow> string \<Rightarrow> string \<Rightarrow> jsnum \<times> jsnum \<Rightarrow> location dbcall" where
  "location_insert address city state country postalCode point d =
     (let l = \<lparr>loc_id = db_locationSeq d, loc_address = address, loc_city = city,
               loc_state = state, loc_country = country, loc_postalCode = postalCode,
               loc_coordinates = point\<rparr>
      in Inr (l, d\<lparr>db_locations := db_locations d @ [l], db_locationSeq := Suc (db_locationSeq d)\<rparr>))"

text \<open>
  \<^verbatim>\<open>prisma.property.create\<close>: the row gets the next number of the sequence; its location
  and its manager must exist.
\<close>

definition property_create :: "property \<Rightarrow> property dbcall" where
  "property_create data d =
     (if find_location d (prop_locationId data) = None
         \<or> find_manager d (prop_managerCognitoId data) = None
      then Inl (''Foreign key constraint failed'', d)
      else
        (let p = data\<lparr>prop_id := db_propertySeq d\<rparr>
         in Inr (p, d\<lparr>db_properties := db_properties d @ [p],
                       db_propertySeq := Suc (db_propertySeq d)\<rparr>)))"

text \<open>The created property with \<^verbatim>\<open>include: { location: true, manager: true }\<close>.\<close>

record propertyView =
  pv_property :: property
  pv_location :: "location option"
  pv_manager :: "manager option"

text \<open>\<^verbatim>\<open>typeof v === "string" ? v.split(",") : []\<close>\<close>

definition split_field :: "string option \<Rightarrow> string list" where
  "split_field v = (case v of None \<Rightarrow> [] | Some s \<Rightarrow> split_on CHR '','' s)"

text \<open>
  The \<^verbatim>\<open>data\<close> of \<^verbatim>\<open>prisma.property.create\<close>: the form fields, the computed fields
  over them.
\<close>

definition property_data :: "createPropertyReq \<Rightarrow> string list \<Rightarrow> nat \<Rightarrow> property" where
  "property_data req photoUrls locationId =
     (let propertyData = map_of (cp_propertyData req)
      in \<lparr>prop_id = 0,
          prop_data = cp_propertyData req,
          prop_photoUrls = photoUrls,
          prop_locationId = locationId,
          prop_managerCognitoId = cp_managerCognitoId req,
          prop_amenities = split_field (propertyData ''amenities''),
          prop_highlights = split_field (propertyData ''highlights''),
          prop_isPetsAllowed = (propertyData ''isPetsAllowed'' = Some ''true''),
          prop_isParkingIncluded = (propertyData ''isParkingIncluded'' = Some ''true''),
          prop_pricePerMonth = parseFloat_field (propertyData ''pricePerMonth''),
          prop_securityDeposit = parseFloat_field (propertyData ''securityDeposit''),
          prop_applicationFee = parseFloat_field (propertyData ''applicationFee''),
          prop_beds = parseInt_field (propertyData ''beds''),
          prop_baths = parseFloat_field (propertyData ''baths''),
          prop_squareFeet = parseInt_field (propertyData ''squareFeet''),
          prop_tenants = {}\<rparr>)"

text \<open>
  The handler. \<open>upload\<close> is the object store and \<open>geocode\<close> the geocoding service, asked
  with street, city, country and postal code; each gives its answer or the message of its
  failure. Database call 0 is the insert of the location, call 1 the creation of the
  property. Every exception reaches the one \<^verbatim>\<open>catch\<close> block.
\<close>

definition createProperty ::
  "(multerFile \<Rightarrow> string + string) \<Rightarrow> (string \<Rightarrow> string \<Rightarrow> string \<Rightarrow> string \<Rightarrow> string + geoResult list)
     \<Rightarrow> faults \<Rightarrow> createPropertyReq \<Rightarrow> db \<Rightarrow> propertyView response \<times> db" where
  "createProperty upload geocode flt req d =
     (case upload_all upload (cp_files req) of
        Inl msg \<Rightarrow> (Message 500 (''Error creating property: '' @ msg), d)
      | Inr photoUrls \<Rightarrow>
          (case geocode (cp_address req) (cp_city req) (cp_country req) (cp_postalCode req) of
             Inl msg \<Rightarrow> (Message 500 (''Error creating property: '' @ msg), d)
           | Inr data \<Rightarrow>
               (case
                  bindDb (failing (flt 0)
                            (location_insert (cp_address req) (cp_city req) (cp_state req)
                               (cp_country req) (cp_postalCode req) (geocoded_point data)))
                    (\<lambda>location.
                  bindDb (failing (flt 1)
                            (property_create (property_data req photoUrls (loc_id location))))
                    (\<lambda>newProperty d'.
                  Inr (Json 201
                         \<lparr>pv_property = newProperty,
                          pv_location = find_location d' (prop_locationId newProperty),
                          pv_manager = find_manager d' (prop_managerCognitoId newProperty)\<rparr>, d'))) d
                of
                  Inl (msg, d') \<Rightarrow> (Message 500 (''Error creating property: '' @ msg), d')
                | Inr (r, d') \<Rightarrow> (r, d'))))"

section \<open>Integrity of the database and example data\<close>

text \<open>
  The constraints the database keeps: the number of every row is below the sequence of its
  table, and every reference of a row (lease to property and tenant, application to
  property, tenant and lease, property to location and manager) leads to a row.
\<close>

definition integrity :: "db \<Rightarrow> bool" where
  "integrity d =
     ((\<forall>l\<in>set (db_leases d).
          lease_id l < db_leaseSeq d
          \<and> find_property d (lease_propertyId l) \<noteq> None
          \<and> find_tenant d (lease_tenantCognitoId l) \<noteq> None)
      \<and> (\<forall>a\<in>set (db_applications d).
          app_id a < db_applicationSeq d
          \<and> find_property d (app_propertyId a) \<noteq> None
          \<and> find_tenant d (app_tenantCognitoId a) \<noteq> None
          \<and> (case app_leaseId a of None \<Rightarrow> True | Some l \<Rightarrow> find_lease d l \<noteq> None))
      \<and> (\<forall>p\<in>set (db_properties d).
          prop_id p < db_propertySeq d
          \<and> find_location d (prop_locationId p) \<noteq> None
          \<and> find_manager d (prop_managerCognitoId p) \<noteq> None)
      \<and> (\<forall>l\<in>set (db_locations d). loc_id l < db_locationSeq d))"

text \<open>
  A database call keeps an invariant \<open>I\<close> when, started in a database with \<open>I\<close> and
  \<open>pre\<close>, it leaves a database with \<open>I\<close> whether it returns or throws, and with \<open>post\<close>
  for the value it returns.
\<close>

definition keeps :: "(db \<Rightarrow> bool) \<Rightarrow> (db \<Rightarrow> bool) \<Rightarrow> 'a dbcall \<Rightarrow> ('a \<Rightarrow> db \<Rightarrow> bool) \<Rightarrow> bool" where
  "keeps I pre m post =
     (\<forall>d. I d \<and> pre d \<longrightarrow>
        (case m d of
           Inl (msg, d') \<Rightarrow> I d'
         | Inr (x, d') \<Rightarrow> I d' \<and> post x d'))"

text \<open>
  A small database: one manager, one tenant, one property with its location, an
  application of the tenant for the property that refers to lease 0, and a second lease of
  the same tenant on the same property that starts later.
\<close>

definition example_tenant :: tenant where
  "example_tenant =
     \<lparr>tenant_cognitoId = ''tenant-1'', tenant_name = ''Tia'', tenant_email = ''tia@example.org'',
      tenant_phoneNumber = ''555-0101''\<rparr>"

definition example_manager :: manager where
  "example_manager =
     \<lparr>manager_cognitoId = ''manager-1'', manager_name = ''Max'',
      manager_email = ''max@example.org'', manager_phoneNumber = ''555-0102''\<rparr>"

definition example_location :: location where
  "example_location =
     \<lparr>loc_id = 0, loc_address = ''1 Main Street'', loc_city = ''Springfield'', loc_state = ''IL'',
      loc_country = ''USA'', loc_postalCode = ''62701'', loc_coordinates = (Fin (- 89), Fin 39)\<rparr>"

definition example_property :: property where
  "example_property =
     \<lparr>prop_id = 0, prop_data = [], prop_photoUrls = [], prop_locationId = 0,
      prop_managerCognitoId = ''manager-1'', prop_amenities = [], prop_highlights = [],
      prop_isPetsAllowed = False, prop_isParkingIncluded = True,
      prop_pricePerMonth = Fin 1500, prop_securityDeposit = Fin 500,
      prop_applicationFee = Fin 100, prop_beds = Fin 2, prop_baths = Fin 1,
      prop_squareFeet = Fin 850, prop_tenants = {}\<rparr>"

definition example_lease0 :: lease where
  "example_lease0 =
     \<lparr>lease_id = 0, lease_startDate = 1673740800000, lease_endDate = 1705276800000,
      lease_rent = Fin 1500, lease_deposit = Fin 500, lease_propertyId = 0,
      lease_tenantCognitoId = ''tenant-1''\<rparr>"

definition example_lease1 :: lease where
  "example_lease1 =
     \<lparr>lease_id = 1, lease_startDate = 1675209600000, lease_endDate = 1706745600000,
      lease_rent = Fin 1500, lease_deposit = Fin 500, lease_propertyId = 0,
      lease_tenantCognitoId = ''tenant-1''\<rparr>"

definition example_application :: application where
  "example_application =
     \<lparr>app_id = 0, app_applicationDate = 1673740800000, app_status = ''Pending'',
      app_propertyId = 0, app_tenantCognitoId = ''tenant-1'', app_name = ''Tia'',
      app_email = ''tia@example.org'', app_phoneNumber = ''555-0101'', app_message = ''Hello'',
      app_leaseId = Some 0\<rparr>"

definition example_db :: db where
  "example_db =
     \<lparr>db_tenants = [example_tenant], db_managers = [example_manager],
      db_locations = [example_location], db_properties = [example_property],
      db_leases = [example_lease0, example_lease1], db_applications = [example_application],
      db_locationSeq = 1, db_propertySeq = 1, db_leaseSeq = 2, db_applicationSeq = 1\<rparr>"

text \<open>The current date of the examples: 2023-03-20, midnight.\<close>

definition example_now :: int where
  "example_now = 1679270400000"

text \<open>A database call that fails: the second call, the property update of an approval.\<close>

definition connection_lost :: faults where
  "connection_lost = (\<lambda>k. if k = 2 then Some ''connection lost'' else None)"

text \<open>A database that refuses every call.\<close>

definition database_down :: faults where
  "database_down = (\<lambda>k. Some ''database down'')"

text \<open>A decoder for tokens whose only claim is the role \<open>r\<close>, and a payload without claims.\<close>

definition role_claims :: "string \<Rightarrow> claims" where
  "role_claims r = (\<lambda>k. if k = ''custom:role'' then Some (JStr r) else None)"

definition role_token :: "string \<Rightarrow> string \<Rightarrow> claims option" where
  "role_token r token = Some (role_claims r)"

definition no_claims :: claims where
  "no_claims = (\<lambda>k. None)"

text \<open>A query with a minimum price only.\<close>

definition priceMin_only :: propertiesQuery where
  "priceMin_only = no_filters\<lparr>priceMin := Some (QStr ''1000'')\<rparr>"

text \<open>
  A creation request without files whose price is not a number, an object store that
  stores every file, and a geocoding service that finds nothing.
\<close>

definition example_form :: "(string \<times> string) list" where
  "example_form =
     [(''name'', ''Loft''), (''pricePerMonth'', ''12abc''), (''securityDeposit'', ''500''),
      (''applicationFee'', ''100''), (''beds'', ''2''), (''baths'', ''1''),
      (''squareFeet'', ''850''), (''isPetsAllowed'', ''true''),
      (''isParkingIncluded'', ''false''), (''amenities'', ''Pool,Gym'')]"

definition example_request :: createPropertyReq where
  "example_request =
     \<lparr>cp_files = [], cp_address = ''2 Side Street'', cp_city = ''Springfield'',
      cp_state = ''IL'', cp_country = ''USA'', cp_postalCode = ''62701'',
      cp_managerCognitoId = ''manager-1'', cp_propertyData = example_form\<rparr>"

definition store_all :: "multerFile \<Rightarrow> string + string" where
  "store_all f = Inr (''https://bucket.example.org/properties/'' @ file_originalname f)"

definition geocode_nothing :: "string \<Rightarrow> string \<Rightarrow> string \<Rightarrow> string \<Rightarrow> string + geoResult list" where
  "geocode_nothing street city country postalcode = Inr []"

text \<open>A geocoding answer whose first entry has a longitude but no latitude.\<close>

definition geocode_no_lat :: "string \<Rightarrow> string \<Rightarrow> string \<Rightarrow> string \<Rightarrow> string + geoResult list" where
  "geocode_no_lat street city country postalcode =
     Inr [\<lparr>geo_lon = Some ''-89.65'', geo_lat = None\<rparr>]"

section \<open>Properties of the date arithmetic\<close>

subsection \<open>Years\<close>

lemma div_bounds:
  fixes a k :: int
  assumes "0 < k"
  shows "k * (a div k) \<le> a \<and> a < k * (a div k) + k"
proof -
  have "a = k * (a div k) + a mod k" by simp
  moreover have "0 \<le> a mod k" "a mod k < k" using assms by auto
  ultimately show ?thesis by linarith
qed

lemma DayFromYear_bounds:
  "146097 * (y - 1970) - 592 \<le> 400 * DayFromYear y \<and>
   400 * DayFromYear y \<le> 146097 * (y - 1970) + 592"
proof -
  define q4 where "q4 = (y - 1969) div 4"
  define q100 where "q100 = (y - 1901) div 100"
  define q400 where "q400 = (y - 1601) div 400"
  have a: "4 * q4 \<le> y - 1969 \<and> y - 1969 < 4 * q4 + 4"
    unfolding q4_def by (rule div_bounds) simp
  have b: "100 * q100 \<le> y - 1901 \<and> y - 1901 < 100 * q100 + 100"
    unfolding q100_def by (rule div_bounds) simp
  have c: "400 * q400 \<le> y - 1601 \<and> y - 1601 < 400 * q400 + 400"
    unfolding q400_def by (rule div_bounds) simp
  have "DayFromYear y = 365 * (y - 1970) + q4 - q100 + q400"
    by (simp add: DayFromYear_def q4_def q100_def q400_def)
  then show ?thesis using a b c by (simp add: algebra_simps)
qed

lemma YearFromDay_spec:
  "DayFromYear (YearFromDay d) \<le> d \<and> d < DayFromYear (YearFromDay d + 1)"
proof -
  define e where "e = (d * 400) div 146097"
  have e: "146097 * e \<le> d * 400 \<and> d * 400 < 146097 * e + 146097"
    unfolding e_def by (rule div_bounds) simp
  define lo where "lo = DayFromYear (1970 + e - 1)"
  define hi where "hi = DayFromYear (1970 + e + 1 + 1)"
  have l: "146097 * (e + 2) - 592 \<le> 400 * hi"
    using DayFromYear_bounds[of "1970 + e + 1 + 1"] by (simp add: hi_def)
  have u: "400 * lo \<le> 146097 * (e - 1) + 592"
    using DayFromYear_bounds[of "1970 + e - 1"] by (simp add: lo_def)
  have 1: "lo \<le> d" using u e by (simp add: algebra_simps)
  have 2: "d < hi" using l e by (simp add: algebra_simps)
  show ?thesis
    unfolding YearFromDay_def e_def[symmetric] Let_def using 1 2
    by (auto simp: lo_def hi_def)
qed

text \<open>A year has 365 or 366 days.\<close>

lemma div_step:
  fixes a k :: int
  assumes "1 < k"
  shows "(a + 1) div k = a div k + (if (a + 1) mod k = 0 then 1 else 0)"
proof (cases "a mod k + 1 = k")
  case True
  have e: "a + 1 = k * (a div k) + (a mod k + 1)" by simp
  have "k * (a div k) + k = k * (a div k + 1) + 0"
    by (simp only: distrib_left mult_1_right add_0_right)
  with e[unfolded True] have "a + 1 = k * (a div k + 1) + 0" by (rule trans)
  then have "(a + 1) div k = a div k + 1" "(a + 1) mod k = 0"
    using assms int_div_pos_eq[of "a + 1" k "a div k + 1" 0]
      int_mod_pos_eq[of "a + 1" k "a div k + 1" 0]
    by auto
  then show ?thesis by simp
next
  case False
  have r: "0 \<le> a mod k" "a mod k < k" using assms by auto
  then have r1: "0 \<le> a mod k + 1" "a mod k + 1 < k" using False by auto
  have "a + 1 = k * (a div k) + (a mod k + 1)" by simp
  then have "(a + 1) div k = a div k" "(a + 1) mod k = a mod k + 1"
    using r1 int_div_pos_eq[of "a + 1" k "a div k" "a mod k + 1"]
      int_mod_pos_eq[of "a + 1" k "a div k" "a mod k + 1"]
    by auto
  then show ?thesis using r by simp
qed


lemma mod_shift: "((y::int) - k * c) mod k = y mod k"
proof -
  have "(y - k * c) mod k = (y + k * (- c)) mod k" by simp
  also have "\<dots> = y mod k" by (rule mod_mult_self2)
  finally show ?thesis .
qed

lemma m4: "((y::int) - 1969 + 1) mod 4 = y mod 4"
  using mod_shift[of y 4 492] by simp
lemma m100: "((y::int) - 1901 + 1) mod 100 = y mod 100"
  using mod_shift[of y 100 19] by simp
lemma m400: "((y::int) - 1601 + 1) mod 400 = y mod 400"
  using mod_shift[of y 400 4] by simp
lemma m400_100: "(y::int) mod 400 = 0 \<Longrightarrow> y mod 100 = 0"
  using mod_mod_cancel[of 100 400 y] by simp
lemma m100_4: "(y::int) mod 100 = 0 \<Longrightarrow> y mod 4 = 0"
  using mod_mod_cancel[of 4 100 y] by simp

lemma DayFromYear_step:
  "DayFromYear (y + 1) = DayFromYear y + (if InLeapYear y then 366 else 365)"
proof -
  have a: "(y + 1 - 1969) div 4 = (y - 1969) div 4 + (if y mod 4 = 0 then 1 else 0)"
    using div_step[of 4 "y - 1969"] m4[of y] by (simp add: algebra_simps)
  have b: "(y + 1 - 1901) div 100 = (y - 1901) div 100 + (if y mod 100 = 0 then 1 else 0)"
    using div_step[of 100 "y - 1901"] m100[of y] by (simp add: algebra_simps)
  have c: "(y + 1 - 1601) div 400 = (y - 1601) div 400 + (if y mod 400 = 0 then 1 else 0)"
    using div_step[of 400 "y - 1601"] m400[of y] by (simp add: algebra_simps)
  show ?thesis
    unfolding DayFromYear_def InLeapYear_def a b c
    using m400_100[of y] m100_4[of y] by auto
qed


lemma MonthFromTime_range: "0 \<le> MonthFromTime t \<and> MonthFromTime t \<le> 11"
  by (simp add: MonthFromTime_def Let_def)

lemma MakeDay_next_month:
  "Day t + 28 \<le> MakeDay (YearFromTime t) (MonthFromTime t + 1) (DateFromTime t) \<and>
   MakeDay (YearFromTime t) (MonthFromTime t + 1) (DateFromTime t) \<le> Day t + 31"
proof -
  define M where "M = MonthFromTime t"
  have "0 \<le> M \<and> M \<le> 11" unfolding M_def by (rule MonthFromTime_range)
  then have "M = 0 \<or> M = 1 \<or> M = 2 \<or> M = 3 \<or> M = 4 \<or> M = 5 \<or> M = 6 \<or> M = 7 \<or> M = 8
      \<or> M = 9 \<or> M = 10 \<or> M = 11" by arith
  then show ?thesis
    unfolding DateFromTime_def DayWithinYear_def MakeDay_def M_def[symmetric] Let_def
    by (elim disjE) (simp_all add: monthStart_def DayFromYear_step)
qed

lemma Day_TimeWithinDay: "MakeDate (Day t) (TimeWithinDay t) = t"
  by (simp add: MakeDate_def Day_def TimeWithinDay_def)

lemma next_month_bounds:
  "t + 28 * msPerDay \<le> MakeDate (MakeDay (YearFromTime t) (MonthFromTime t + 1) (DateFromTime t)) (TimeWithinDay t) \<and>
   MakeDate (MakeDay (YearFromTime t) (MonthFromTime t + 1) (DateFromTime t)) (TimeWithinDay t) \<le> t + 31 * msPerDay"
proof -
  let ?d = "MakeDay (YearFromTime t) (MonthFromTime t + 1) (DateFromTime t)"
  have t: "t = Day t * msPerDay + TimeWithinDay t"
    using Day_TimeWithinDay[of t] by (simp add: MakeDate_def)
  have b: "Day t + 28 \<le> ?d" "?d \<le> Day t + 31" using MakeDay_next_month[of t] by auto
  have p: "0 < msPerDay" by (simp add: msPerDay_def)
  have "(Day t + 28) * msPerDay \<le> ?d * msPerDay" using b(1) p by (simp add: mult_right_mono)
  moreover have "?d * msPerDay \<le> (Day t + 31) * msPerDay" using b(2) p by (simp add: mult_right_mono)
  ultimately show ?thesis using t unfolding MakeDate_def by (simp add: algebra_simps)
qed


lemma advanceMonth_Some:
  assumes "- maxTime \<le> t" "t + 31 * msPerDay \<le> maxTime"
  shows "\<exists>t'. advanceMonth (Some t) = Some t' \<and> t < t' \<and> t' \<le> t + 31 * msPerDay"
proof -
  let ?u = "MakeDate (MakeDay (YearFromTime t) (MonthFromTime t + 1) (DateFromTime t)) (TimeWithinDay t)"
  have b: "t + 28 * msPerDay \<le> ?u" "?u \<le> t + 31 * msPerDay"
    using next_month_bounds[of t] by auto
  have p: "0 < msPerDay" by (simp add: msPerDay_def)
  have "t < ?u" using b(1) p by linarith
  moreover have "\<bar>?u\<bar> \<le> maxTime" using b assms p by linarith
  ultimately show ?thesis
    using b(2) by (simp add: advanceMonth_def setMonth_def getMonth_def TimeClip_def)
qed

lemma advanceMonth_increases:
  assumes "advanceMonth (Some t) = Some t'"
  shows "t < t'"
proof -
  have p: "0 < msPerDay" by (simp add: msPerDay_def)
  from assms have "t' = MakeDate (MakeDay (YearFromTime t) (MonthFromTime t + 1) (DateFromTime t)) (TimeWithinDay t)"
    by (simp add: advanceMonth_def setMonth_def getMonth_def TimeClip_def split: if_splits)
  then show ?thesis using next_month_bounds[of t] p by linarith
qed

termination nextPaymentLoop
proof (relation "measure (\<lambda>(today, d). case (today, d) of (Some n, Some t) \<Rightarrow> nat (n - t + 1) | _ \<Rightarrow> 0)")
  show "wf (measure (\<lambda>(today, d). case (today, d) of (Some n, Some t) \<Rightarrow> nat (n - t + 1) | _ \<Rightarrow> 0))"
    by simp
next
  fix today d :: date
  assume le: "date_le d today"
  then obtain t n where d: "d = Some t" and n: "today = Some n" and tn: "t \<le> n"
    by (auto simp: date_le_def split: option.splits)
  show "((today, advanceMonth d), (today, d))
      \<in> measure (\<lambda>(today, d). case (today, d) of (Some n, Some t) \<Rightarrow> nat (n - t + 1) | _ \<Rightarrow> 0)"
  proof (cases "advanceMonth d")
    case None
    then show ?thesis using d n tn by simp
  next
    case (Some t')
    then have "t < t'" using advanceMonth_increases d by simp
    then show ?thesis using Some d n tn by simp
  qed
qed

lemma nextPaymentLoop_spec:
  assumes "d = Some t" "today = Some n" "- maxTime \<le> t" "t \<le> n" "n + 31 * msPerDay \<le> maxTime"
  shows "\<exists>r k. nextPaymentLoop today d = Some r \<and> n < r \<and> 0 < k
           \<and> (advanceMonth ^^ k) d = Some r
           \<and> (\<forall>j<k. date_le ((advanceMonth ^^ j) d) today)"
  using assms
proof (induction today d arbitrary: t rule: nextPaymentLoop.induct)
  case (1 today d)
  have le: "date_le d today" using 1 by (simp add: date_le_def)
  have "t + 31 * msPerDay \<le> maxTime" using 1 by linarith
  then obtain t' where t': "advanceMonth d = Some t'" "t < t'" "t' \<le> t + 31 * msPerDay"
    using advanceMonth_Some[of t] 1 by auto
  show ?case
  proof (cases "t' \<le> n")
    case True
    have "- maxTime \<le> t'" using t' 1 by linarith
    from "1.IH"[OF le t'(1) "1.prems"(2) this True "1.prems"(5)]
    obtain r k where rk: "nextPaymentLoop today (advanceMonth d) = Some r" "n < r" "0 < k"
      "(advanceMonth ^^ k) (advanceMonth d) = Some r"
      "\<forall>j<k. date_le ((advanceMonth ^^ j) (advanceMonth d)) today" by blast
    have a: "nextPaymentLoop today d = Some r" using le rk(1) by simp
    have b: "(advanceMonth ^^ Suc k) d = Some r" using rk(4) by (simp add: funpow_swap1)
    have c: "\<forall>j<Suc k. date_le ((advanceMonth ^^ j) d) today"
    proof (intro allI impI)
      fix j assume "j < Suc k"
      show "date_le ((advanceMonth ^^ j) d) today"
      proof (cases j)
        case 0
        then show ?thesis using le by simp
      next
        case (Suc i)
        then have "i < k" using \<open>j < Suc k\<close> by simp
        then show ?thesis using rk(5) Suc by (simp add: funpow_swap1)
      qed
    qed
    show ?thesis using a b c rk(2) by (intro exI[of _ r] exI[of _ "Suc k"]) simp
  next
    case False
    then have "\<not> date_le (Some t') today" using 1 by (simp add: date_le_def)
    then have a: "nextPaymentLoop today d = Some t'" using le t'(1) by simp
    have "\<forall>j<Suc 0. date_le ((advanceMonth ^^ j) d) today" using le by simp
    then show ?thesis using a False t'(1) by (intro exI[of _ t'] exI[of _ "Suc 0"]) simp
  qed
qed

section \<open>The next payment date is in the future\<close>

text \<open>
  Claim C3. For every lease start date that is not after the current date,
  \<open>calculateNextPaymentDate\<close> returns, and what it returns is the start date advanced by
  one month some \<open>k \<ge> 1\<close> times, every earlier stage being not after the current date and
  the result being strictly after it. Both dates are valid dates of JavaScript, the current
  date at least 31 days before the last one (the year 275760), so that the result is a
  valid date too. For a lease starting 2023-01-15 and the current date 2023-03-20 the
  result is 2023-04-15 (months count from 0).
\<close>

theorem calculateNextPaymentDate_in_future:
  "(\<forall>s n. - maxTime \<le> s \<and> s \<le> n \<and> n + 31 * msPerDay \<le> maxTime \<longrightarrow>
      (\<exists>r k. calculateNextPaymentDate (Some n) (Some s) = Some r \<and> n < r \<and> 0 < k
          \<and> (advanceMonth ^^ k) (Some s) = Some r
          \<and> (\<forall>j<k. date_le ((advanceMonth ^^ j) (Some s)) (Some n))))
   \<and> calculateNextPaymentDate (DateUTC 2023 2 20) (DateUTC 2023 0 15) = DateUTC 2023 3 15"
proof (intro conjI allI impI)
  fix s n :: int
  assume h: "- maxTime \<le> s \<and> s \<le> n \<and> n + 31 * msPerDay \<le> maxTime"
  show "\<exists>r k. calculateNextPaymentDate (Some n) (Some s) = Some r \<and> n < r \<and> 0 < k
          \<and> (advanceMonth ^^ k) (Some s) = Some r
          \<and> (\<forall>j<k. date_le ((advanceMonth ^^ j) (Some s)) (Some n))"
    unfolding calculateNextPaymentDate_def
    using nextPaymentLoop_spec[of "Some s" s "Some n" n] h by blast
next
  show "calculateNextPaymentDate (DateUTC 2023 2 20) (DateUTC 2023 0 15) = DateUTC 2023 3 15"
    by code_simp
qed

theorem calculateNextPaymentDate_in_future_witness:
  "- maxTime \<le> 1673740800000 \<and> (1673740800000 :: int) \<le> 1679270400000
   \<and> 1679270400000 + 31 * msPerDay \<le> maxTime
   \<and> (\<exists>r k. calculateNextPaymentDate (Some 1679270400000) (Some 1673740800000) = Some r
          \<and> 1679270400000 < r \<and> 0 < k
          \<and> (advanceMonth ^^ k) (Some 1673740800000) = Some r
          \<and> (\<forall>j<k. date_le ((advanceMonth ^^ j) (Some 1673740800000)) (Some 1679270400000)))"
proof -
  have h: "- maxTime \<le> 1673740800000 \<and> (1673740800000 :: int) \<le> 1679270400000
      \<and> 1679270400000 + 31 * msPerDay \<le> maxTime"
    by (simp add: maxTime_def msPerDay_def)
  from calculateNextPaymentDate_in_future
  have "\<forall>s n. - maxTime \<le> s \<and> s \<le> n \<and> n + 31 * msPerDay \<le> maxTime \<longrightarrow>
      (\<exists>r k. calculateNextPaymentDate (Some n) (Some s) = Some r \<and> n < r \<and> 0 < k
          \<and> (advanceMonth ^^ k) (Some s) = Some r
          \<and> (\<forall>j<k. date_le ((advanceMonth ^^ j) (Some s)) (Some n)))"
    by (rule conjunct1)
  then show ?thesis using h by blast
qed

section \<open>The query builder and unset parameters\<close>

lemma when_set_None: "when_set None f = []"
  by (simp add: when_set_def)

lemma truthy_Some: "truthy v \<Longrightarrow> \<exists>x. v = Some x"
  by (cases v) auto

lemma in_when_set: "c \<in> set (when_set v f) \<Longrightarrow> truthy v \<and> (\<exists>x. v = Some x \<and> c \<in> set (f x))"
  by (auto simp: when_set_def split: option.splits if_splits)

lemma whereConditions_set:
  assumes "whereConditions DateParse q = Inr conds" "c \<in> set conds" "p \<in> set (condition_parameters c)"
  shows "truthy (parameter_value q p)"
proof -
  define L where "L =
         when_set (favoriteIds q) (\<lambda>v. [IdIn (pieces v)])
         @ when_set (priceMin q) (\<lambda>v. [PricePerMonthGe v])
         @ when_set (priceMax q) (\<lambda>v. [PricePerMonthLe v])
         @ when_set (beds q) (\<lambda>v. if v \<noteq> QStr ''any'' then [BedsGe v] else [])
         @ when_set (baths q) (\<lambda>v. if v \<noteq> QStr ''any'' then [BathsGe v] else [])
         @ when_set (squareFeetMin q) (\<lambda>v. [SquareFeetGe v])
         @ when_set (squareFeetMax q) (\<lambda>v. [SquareFeetLe v])
         @ when_set (propertyType q) (\<lambda>v. if v \<noteq> QStr ''any'' then [PropertyTypeEq v] else [])
         @ when_set (amenities q) (\<lambda>v. if v \<noteq> QStr ''any'' then [AmenitiesContain (pieces v)] else [])
         @ when_set (availableFrom q)
             (\<lambda>v. case v of
                     QStr s \<Rightarrow> (case DateParse s of None \<Rightarrow> [] | Some t \<Rightarrow> [LeaseStartsOnOrBefore t])
                   | _ \<Rightarrow> [])
         @ (if truthy (latitude q) \<and> truthy (longitude q)
            then [WithinDegrees (parseFloat (String (longitude q))) (parseFloat (String (latitude q)))
                    (1000 / (11132 / 100))]
            else [])"
  have "whereConditions DateParse q =
      (if truthy (favoriteIds q) \<and> split_throws (favoriteIds q)
       then Inl ''favoriteIds.split is not a function''
       else if truthy (amenities q) \<and> amenities q \<noteq> Some (QStr ''any'') \<and> split_throws (amenities q)
       then Inl ''amenities.split is not a function''
       else Inr L)"
    unfolding whereConditions_def L_def by (rule refl)
  with assms(1) have "conds = L" by (simp split: if_splits)
  then have conds: "conds =
         when_set (favoriteIds q) (\<lambda>v. [IdIn (pieces v)])
         @ when_set (priceMin q) (\<lambda>v. [PricePerMonthGe v])
         @ when_set (priceMax q) (\<lambda>v. [PricePerMonthLe v])
         @ when_set (beds q) (\<lambda>v. if v \<noteq> QStr ''any'' then [BedsGe v] else [])
         @ when_set (baths q) (\<lambda>v. if v \<noteq> QStr ''any'' then [BathsGe v] else [])
         @ when_set (squareFeetMin q) (\<lambda>v. [SquareFeetGe v])
         @ when_set (squareFeetMax q) (\<lambda>v. [SquareFeetLe v])
         @ when_set (propertyType q) (\<lambda>v. if v \<noteq> QStr ''any'' then [PropertyTypeEq v] else [])
         @ when_set (amenities q) (\<lambda>v. if v \<noteq> QStr ''any'' then [AmenitiesContain (pieces v)] else [])
         @ when_set (availableFrom q)
             (\<lambda>v. case v of
                     QStr s \<Rightarrow> (case DateParse s of None \<Rightarrow> [] | Some t \<Rightarrow> [LeaseStartsOnOrBefore t])
                   | _ \<Rightarrow> [])
         @ (if truthy (latitude q) \<and> truthy (longitude q)
            then [WithinDegrees (parseFloat (String (longitude q))) (parseFloat (String (latitude q)))
                    (1000 / (11132 / 100))]
            else [])"
    by (simp only: L_def)
  from assms(2) show ?thesis
    unfolding conds set_append Un_iff
  proof (elim disjE)
    assume "c \<in> set (if truthy (latitude q) \<and> truthy (longitude q)
            then [WithinDegrees (parseFloat (String (longitude q))) (parseFloat (String (latitude q)))
                    (1000 / (11132 / 100))]
            else [])"
    then show ?thesis using assms(3) by (auto split: if_splits)
  qed (use assms(3) in \<open>auto dest!: in_when_set split: if_splits qvalue.splits option.splits\<close>)
qed


lemma whereConditions_no_filters:
  assumes "\<forall>p. parameter_value q p = None"
  shows "whereConditions DateParse q = Inr []"
proof -
  have "favoriteIds q = None" using assms parameter_value.simps(1)[of q] by metis
  moreover have "priceMin q = None" using assms parameter_value.simps(2)[of q] by metis
  moreover have "priceMax q = None" using assms parameter_value.simps(3)[of q] by metis
  moreover have "beds q = None" using assms parameter_value.simps(4)[of q] by metis
  moreover have "baths q = None" using assms parameter_value.simps(5)[of q] by metis
  moreover have "propertyType q = None" using assms parameter_value.simps(6)[of q] by metis
  moreover have "squareFeetMin q = None" using assms parameter_value.simps(7)[of q] by metis
  moreover have "squareFeetMax q = None" using assms parameter_value.simps(8)[of q] by metis
  moreover have "amenities q = None" using assms parameter_value.simps(9)[of q] by metis
  moreover have "availableFrom q = None" using assms parameter_value.simps(10)[of q] by metis
  moreover have "latitude q = None" using assms parameter_value.simps(11)[of q] by metis
  moreover have "longitude q = None" using assms parameter_value.simps(12)[of q] by metis
  ultimately show ?thesis by (simp add: whereConditions_def when_set_None)
qed

text \<open>
  Claim C4. A condition is pushed only for parameters that are set: when the builder
  returns its conditions, none of them is built from a parameter that is absent from the
  request. With every parameter absent there is no condition, the query sent is the query
  without a \<^verbatim>\<open>WHERE\<close> clause, and the handler answers what the database answers to that
  query.
\<close>

theorem whereConditions_unset_parameters:
  "(\<forall>conds p. whereConditions DateParse q = Inr conds \<and> parameter_value q p = None \<longrightarrow>
       (\<forall>c\<in>set conds. p \<notin> set (condition_parameters c)))
   \<and> ((\<forall>p. parameter_value q p = None) \<longrightarrow>
         whereConditions DateParse q = Inr []
         \<and> completeQuery [] = unfilteredQuery
         \<and> getProperties queryRaw DateParse q =
             (case queryRaw unfilteredQuery of
                Inl msg \<Rightarrow> Message 500 (''Error retrieving properties: '' @ msg)
              | Inr properties \<Rightarrow> Json 200 properties))"
proof (intro conjI allI impI ballI)
  fix conds p c
  assume h: "whereConditions DateParse q = Inr conds \<and> parameter_value q p = None"
    and c: "c \<in> set conds"
  show "p \<notin> set (condition_parameters c)"
  proof
    assume "p \<in> set (condition_parameters c)"
    then have "truthy (parameter_value q p)" using whereConditions_set h c by blast
    then show False using h by simp
  qed
next
  assume "\<forall>p. parameter_value q p = None"
  then show "whereConditions DateParse q = Inr []" by (rule whereConditions_no_filters)
next
  show "completeQuery [] = unfilteredQuery" by (simp add: completeQuery_def unfilteredQuery_def)
next
  assume "\<forall>p. parameter_value q p = None"
  then have "whereConditions DateParse q = Inr []" by (rule whereConditions_no_filters)
  then show "getProperties queryRaw DateParse q =
             (case queryRaw unfilteredQuery of
                Inl msg \<Rightarrow> Message 500 (''Error retrieving properties: '' @ msg)
              | Inr properties \<Rightarrow> Json 200 properties)"
    by (simp add: getProperties_def completeQuery_def unfilteredQuery_def)
qed

theorem whereConditions_unset_parameters_witness:
  "whereConditions (\<lambda>s. None) priceMin_only = Inr [PricePerMonthGe (QStr ''1000'')]
   \<and> parameter_value priceMin_only PriceMax = None
   \<and> PriceMax \<notin> set (condition_parameters (PricePerMonthGe (QStr ''1000'')))
   \<and> (\<forall>p. parameter_value no_filters p = None)
   \<and> whereConditions (\<lambda>s. None) no_filters = Inr []
   \<and> getProperties (\<lambda>query. Inr [query]) (\<lambda>s. None) no_filters = Json 200 [unfilteredQuery]"
proof -
  have a: "whereConditions (\<lambda>s. None) priceMin_only = Inr [PricePerMonthGe (QStr ''1000'')]"
    by (simp add: whereConditions_def priceMin_only_def no_filters_def when_set_def split_throws_def)
  have b: "parameter_value priceMin_only PriceMax = None"
    by (simp add: priceMin_only_def no_filters_def)
  have c: "\<forall>p. parameter_value no_filters p = None"
  proof
    fix p show "parameter_value no_filters p = None" by (cases p) (simp_all add: no_filters_def)
  qed
  note t = whereConditions_unset_parameters[of "\<lambda>s. None" priceMin_only]
  note u = whereConditions_unset_parameters[of "\<lambda>s. None" no_filters "\<lambda>query. Inr [query]"]
  from t a b have "PriceMax \<notin> set (condition_parameters (PricePerMonthGe (QStr ''1000'')))"
    by simp
  moreover from u c have "whereConditions (\<lambda>s. None) no_filters = Inr []
      \<and> getProperties (\<lambda>query. Inr [query]) (\<lambda>s. None) no_filters = Json 200 [unfilteredQuery]"
    by simp
  ultimately show ?thesis using a b c by blast
qed

section \<open>The authorization gate\<close>

lemma bearer_abc: "bearerToken (Some ''Bearer abc'') = Some ''abc''"
  by (simp add: bearerToken_def)

lemma lower_MANAGER: "toLowerCase ''MANAGER'' = ''manager''"
  by code_simp

text \<open>
  Claim C5, as the code has it. For every authorization header that carries a token, every
  decoder and every allow-list: when the token decodes and its role (the claim, or the
  empty string when the claim is absent) is a string, the gate lower-cases the role and
  looks it up among the entries of the allow-list as they are written. It calls
  \<^verbatim>\<open>next()\<close> exactly when the lower-cased role is an entry, and answers 403 Forbidden
  otherwise. For an allow-list whose entries are in lower case this is a comparison that
  ignores case. A route for managers only, \<^verbatim>\<open>authMiddleware(["manager"])\<close>, answers 403
  to the role tenant and admits the role manager.
\<close>

theorem authMiddleware_role_check:
  "(bearerToken authorization = Some token \<and> token \<noteq> [] \<and> jwt_decode token = Some decoded
      \<and> role_claim decoded = JStr r \<longrightarrow>
        snd (authMiddleware jwt_decode allowedRoles authorization) =
          (if toLowerCase r \<in> set allowedRoles then Next else Status 403 ''Forbidden'')
        \<and> ((\<forall>a\<in>set allowedRoles. toLowerCase a = a) \<longrightarrow>
             (snd (authMiddleware jwt_decode allowedRoles authorization) = Next
              \<longleftrightarrow> (\<exists>a\<in>set allowedRoles. toLowerCase a = toLowerCase r))))
   \<and> (decoded ''custom:role'' = None \<longrightarrow> role_claim decoded = JStr [])
   \<and> snd (authMiddleware (role_token ''tenant'') [''manager''] (Some ''Bearer abc''))
       = Status 403 ''Forbidden''
   \<and> snd (authMiddleware (role_token ''manager'') [''manager''] (Some ''Bearer abc'')) = Next"
proof (intro conjI impI)
  assume h: "bearerToken authorization = Some token \<and> token \<noteq> [] \<and> jwt_decode token = Some decoded
      \<and> role_claim decoded = JStr r"
  then show res: "snd (authMiddleware jwt_decode allowedRoles authorization) =
          (if toLowerCase r \<in> set allowedRoles then Next else Status 403 ''Forbidden'')"
    by (simp add: authMiddleware_def Let_def)
  assume low: "\<forall>a\<in>set allowedRoles. toLowerCase a = a"
  show "snd (authMiddleware jwt_decode allowedRoles authorization) = Next
              \<longleftrightarrow> (\<exists>a\<in>set allowedRoles. toLowerCase a = toLowerCase r)"
  proof
    assume "snd (authMiddleware jwt_decode allowedRoles authorization) = Next"
    then have m: "toLowerCase r \<in> set allowedRoles" using res by (simp split: if_splits)
    then have "toLowerCase (toLowerCase r) = toLowerCase r" using low by blast
    then show "\<exists>a\<in>set allowedRoles. toLowerCase a = toLowerCase r" using m by blast
  next
    assume "\<exists>a\<in>set allowedRoles. toLowerCase a = toLowerCase r"
    then obtain a where "a \<in> set allowedRoles" "toLowerCase a = toLowerCase r" by blast
    then have "toLowerCase r \<in> set allowedRoles" using low by auto
    then show "snd (authMiddleware jwt_decode allowedRoles authorization) = Next"
      using res by simp
  qed
next
  assume "decoded ''custom:role'' = None"
  then show "role_claim decoded = JStr []" by (simp add: role_claim_def)
next
  show "snd (authMiddleware (role_token ''tenant'') [''manager''] (Some ''Bearer abc''))
       = Status 403 ''Forbidden''"
    by (simp add: authMiddleware_def bearer_abc role_token_def role_claims_def role_claim_def
        toLowerCase_def lower_char_def Let_def)
next
  show "snd (authMiddleware (role_token ''manager'') [''manager''] (Some ''Bearer abc'')) = Next"
    by (simp add: authMiddleware_def bearer_abc role_token_def role_claims_def role_claim_def
        toLowerCase_def lower_char_def Let_def)
qed

theorem authMiddleware_role_check_witness:
  "bearerToken (Some ''Bearer abc'') = Some ''abc'' \<and> ''abc'' \<noteq> []
   \<and> role_token ''MANAGER'' ''abc'' = Some (role_claims ''MANAGER'')
   \<and> role_claim (role_claims ''MANAGER'') = JStr ''MANAGER''
   \<and> toLowerCase ''manager'' = ''manager''
   \<and> snd (authMiddleware (role_token ''MANAGER'') [''manager''] (Some ''Bearer abc'')) = Next
   \<and> no_claims ''custom:role'' = None \<and> role_claim no_claims = JStr []"
proof -
  have h: "bearerToken (Some ''Bearer abc'') = Some ''abc'' \<and> ''abc'' \<noteq> []
      \<and> role_token ''MANAGER'' ''abc'' = Some (role_claims ''MANAGER'')
      \<and> role_claim (role_claims ''MANAGER'') = JStr ''MANAGER''"
    by (simp add: bearer_abc role_token_def role_claims_def role_claim_def)
  have l: "toLowerCase ''manager'' = ''manager''"
    by (simp add: toLowerCase_def lower_char_def Let_def)
  have n: "no_claims ''custom:role'' = None" by (simp add: no_claims_def)
  note t = authMiddleware_role_check[where authorization = "Some ''Bearer abc''"
      and token = "''abc''" and jwt_decode = "role_token ''MANAGER''"
      and decoded = "role_claims ''MANAGER''" and r = "''MANAGER''"
      and allowedRoles = "[''manager'']"]
  note u = authMiddleware_role_check[where decoded = no_claims]
  from t h have "snd (authMiddleware (role_token ''MANAGER'') [''manager''] (Some ''Bearer abc'')) =
      (if toLowerCase ''MANAGER'' \<in> set [''manager''] then Next else Status 403 ''Forbidden'')"
    by blast
  then have "snd (authMiddleware (role_token ''MANAGER'') [''manager''] (Some ''Bearer abc'')) = Next"
    by (simp add: lower_MANAGER)
  moreover from u n have "role_claim no_claims = JStr []" by blast
  ultimately show ?thesis using h l n by blast
qed

text \<open>
  The claim as the specification states it, that the role is compared with the allow-list
  without regard to case and the request admitted exactly when the role is in the list,
  fails for an allow-list with a capital letter: the role \<^verbatim>\<open>Manager\<close> is an entry of the
  list \<^verbatim>\<open>["Manager"]\<close>, and the gate answers 403.
\<close>

theorem authMiddleware_listed_role_counterexample:
  "''Manager'' \<in> set [''Manager'']
   \<and> snd (authMiddleware (role_token ''Manager'') [''Manager''] (Some ''Bearer abc''))
       = Status 403 ''Forbidden''"
  by code_simp

section \<open>Looking up rows\<close>

lemma find_Some_set: "find P xs = Some x \<Longrightarrow> x \<in> set xs \<and> P x"
  by (auto simp: find_Some_iff)

lemma find_not_None: "find P xs \<noteq> None \<Longrightarrow> \<exists>x\<in>set xs. P x"
  by (auto simp: find_None_iff)

lemma find_map_update:
  assumes "find (\<lambda>x. k x = i) xs = Some a" "\<And>x. k (u x) = k x"
  shows "find (\<lambda>x. k x = i) (map (\<lambda>x. if k x = i then u x else x) xs) = Some (u a)"
  using assms
  by (induction xs) (auto split: if_splits)

lemma find_append_new:
  assumes "\<forall>x\<in>set xs. \<not> P x" "P y"
  shows "find P (xs @ [y]) = Some y"
  using assms by (induction xs) auto

lemma view_application_fields:
  "av_app (view_application d a) = a"
  "av_property (view_application d a) = find_property d (app_propertyId a)"
  "av_tenant (view_application d a) = find_tenant d (app_tenantCognitoId a)"
  "av_lease (view_application d a) = (case app_leaseId a of None \<Rightarrow> None | Some l \<Rightarrow> find_lease d l)"
  by (simp_all add: view_application_def)

text \<open>The example database keeps the constraints.\<close>

lemma integrity_example: "integrity example_db"
  by (simp add: integrity_def example_db_def example_lease0_def example_lease1_def
      example_application_def example_property_def example_location_def example_tenant_def
      example_manager_def find_property_def find_tenant_def find_lease_def find_location_def
      find_manager_def)

lemma example_find: "find_application example_db 0 = Some example_application"
  by (simp add: find_application_def example_db_def example_application_def)

section \<open>The handlers keep the integrity of the database\<close>

lemma keepsI:
  assumes "\<And>d msg d'. I d \<Longrightarrow> pre d \<Longrightarrow> m d = Inl (msg, d') \<Longrightarrow> I d'"
    and "\<And>d x d'. I d \<Longrightarrow> pre d \<Longrightarrow> m d = Inr (x, d') \<Longrightarrow> I d' \<and> post x d'"
  shows "keeps I pre m post"
  unfolding keeps_def
proof (intro allI impI)
  fix d assume h: "I d \<and> pre d"
  show "case m d of Inl (msg, d') \<Rightarrow> I d' | Inr (x, d') \<Rightarrow> I d' \<and> post x d'"
  proof (cases "m d")
    case (Inl e)
    obtain msg d' where e: "e = (msg, d')" by (cases e)
    then have "I d'" using assms(1)[of d msg d'] h Inl by simp
    then show ?thesis using Inl e by simp
  next
    case (Inr r)
    obtain x d' where r: "r = (x, d')" by (cases r)
    then have "I d' \<and> post x d'" using assms(2)[of d x d'] h Inr by simp
    then show ?thesis using Inr r by simp
  qed
qed

lemma keeps_Inl:
  assumes "keeps I pre m post" "I d" "pre d" "m d = Inl (msg, d')"
  shows "I d'"
  using assms(1)[unfolded keeps_def, rule_format, of d] assms(2-4) by simp

lemma keeps_Inr:
  assumes "keeps I pre m post" "I d" "pre d" "m d = Inr (x, d')"
  shows "I d' \<and> post x d'"
  using assms(1)[unfolded keeps_def, rule_format, of d] assms(2-4) by simp

lemma keeps_return: "(\<And>d. I d \<Longrightarrow> pre d \<Longrightarrow> post x d) \<Longrightarrow> keeps I pre (returnDb x) post"
  by (rule keepsI) (auto simp: returnDb_def)

lemma keeps_throw: "keeps I pre (throwDb msg) post"
  by (rule keepsI) (auto simp: throwDb_def)

lemma keeps_read:
  "(\<And>d. I d \<Longrightarrow> pre d \<Longrightarrow> post (g d) d) \<Longrightarrow> keeps I pre (\<lambda>d. Inr (g d, d)) post"
  by (rule keepsI) auto

lemma keeps_bind:
  assumes m: "keeps I pre m mid" and f: "\<And>x. keeps I (mid x) (f x) post"
  shows "keeps I pre (bindDb m f) post"
proof (rule keepsI)
  fix d msg d' assume h: "I d" "pre d" "bindDb m f d = Inl (msg, d')"
  show "I d'"
  proof (cases "m d")
    case (Inl e)
    then show ?thesis using h keeps_Inl[OF m h(1,2)] by (cases e) (simp add: bindDb_def)
  next
    case (Inr r)
    obtain x d1 where r: "r = (x, d1)" by (cases r)
    then have "I d1 \<and> mid x d1" using keeps_Inr[OF m h(1,2)] Inr by simp
    moreover have "f x d1 = Inl (msg, d')" using h(3) Inr r by (simp add: bindDb_def)
    ultimately show ?thesis using keeps_Inl[OF f] by blast
  qed
next
  fix d y d' assume h: "I d" "pre d" "bindDb m f d = Inr (y, d')"
  show "I d' \<and> post y d'"
  proof (cases "m d")
    case (Inl e)
    then show ?thesis using h by (simp add: bindDb_def)
  next
    case (Inr r)
    obtain x d1 where r: "r = (x, d1)" by (cases r)
    then have "I d1 \<and> mid x d1" using keeps_Inr[OF m h(1,2)] Inr by simp
    moreover have "f x d1 = Inr (y, d')" using h(3) Inr r by (simp add: bindDb_def)
    ultimately show ?thesis using keeps_Inr[OF f] by blast
  qed
qed

lemma keeps_failing: "keeps I pre m post \<Longrightarrow> keeps I pre (failing fault m) post"
  by (cases fault) (simp_all add: failing_def keeps_throw)

lemma keeps_transaction:
  assumes "keeps I pre m post"
  shows "keeps I pre (transaction m) post"
proof (rule keepsI)
  fix d msg d' assume "I d" "pre d" "transaction m d = Inl (msg, d')"
  then show "I d'" by (auto simp: transaction_def split: sum.splits prod.splits)
next
  fix d x d' assume h: "I d" "pre d" "transaction m d = Inr (x, d')"
  then have "m d = Inr (x, d')" by (auto simp: transaction_def split: sum.splits prod.splits)
  then show "I d' \<and> post x d'" using keeps_Inr[OF assms h(1,2)] by blast
qed

lemma keeps_weaken:
  assumes k: "keeps I pre m post" and p: "\<And>d. I d \<Longrightarrow> pre' d \<Longrightarrow> pre d"
    and q: "\<And>x d. I d \<Longrightarrow> post x d \<Longrightarrow> post' x d"
  shows "keeps I pre' m post'"
proof (rule keepsI)
  fix d msg d' assume "I d" "pre' d" "m d = Inl (msg, d')"
  then show "I d'" using keeps_Inl[OF k] p by blast
next
  fix d x d' assume "I d" "pre' d" "m d = Inr (x, d')"
  then show "I d' \<and> post' x d'" using keeps_Inr[OF k] p q by blast
qed

lemma found_append: "find P xs \<noteq> None \<Longrightarrow> find P (xs @ ys) \<noteq> None"
  by (induction xs) auto

lemma found_last: "P y \<Longrightarrow> find P (xs @ [y]) \<noteq> None"
  by (induction xs) auto

lemma found_iff: "find P xs \<noteq> None \<longleftrightarrow> (\<exists>x\<in>set xs. P x)"
  by (auto simp: find_None_iff)

lemma case_option_all: "(case x of None \<Rightarrow> True | Some k \<Rightarrow> P k) \<longleftrightarrow> (\<forall>k. x = Some k \<longrightarrow> P k)"
  by (cases x) auto

lemma integrity_set:
  "integrity d =
     ((\<forall>l\<in>set (db_leases d).
          lease_id l < db_leaseSeq d
          \<and> (\<exists>p\<in>set (db_properties d). prop_id p = lease_propertyId l)
          \<and> (\<exists>t\<in>set (db_tenants d). tenant_cognitoId t = lease_tenantCognitoId l))
      \<and> (\<forall>a\<in>set (db_applications d).
          app_id a < db_applicationSeq d
          \<and> (\<exists>p\<in>set (db_properties d). prop_id p = app_propertyId a)
          \<and> (\<exists>t\<in>set (db_tenants d). tenant_cognitoId t = app_tenantCognitoId a)
          \<and> (\<forall>k. app_leaseId a = Some k \<longrightarrow> (\<exists>l\<in>set (db_leases d). lease_id l = k)))
      \<and> (\<forall>p\<in>set (db_properties d).
          prop_id p < db_propertySeq d
          \<and> (\<exists>l\<in>set (db_locations d). loc_id l = prop_locationId p)
          \<and> (\<exists>m\<in>set (db_managers d). manager_cognitoId m = prop_managerCognitoId p))
      \<and> (\<forall>l\<in>set (db_locations d). loc_id l < db_locationSeq d))"
  by (simp only: integrity_def find_property_def find_tenant_def find_lease_def find_location_def
    find_manager_def found_iff case_option_all)

lemma integrity_add_lease:
  assumes i: "integrity d" and n: "lease_id l = db_leaseSeq d"
    and p: "find_property d (lease_propertyId l) \<noteq> None"
    and t: "find_tenant d (lease_tenantCognitoId l) \<noteq> None"
  shows "integrity (d\<lparr>db_leases := db_leases d @ [l], db_leaseSeq := Suc (db_leaseSeq d)\<rparr>)"
  using assms unfolding integrity_set find_property_def find_tenant_def found_iff
  by (auto simp: less_Suc_eq)


lemma bex_map_key:
  assumes "\<And>x. k (u x) = k x"
  shows "(\<exists>x\<in>set (map (\<lambda>x. if k x = j then u x else x) xs). k x = i) \<longleftrightarrow> (\<exists>x\<in>set xs. k x = i)"
  using assms by (induction xs) auto

lemma ball_map_keep:
  assumes "\<And>x. P (u x) = P x"
  shows "(\<forall>x\<in>set (map (\<lambda>x. if k x = j then u x else x) xs). P x) \<longleftrightarrow> (\<forall>x\<in>set xs. P x)"
  using assms by (induction xs) auto

lemma integrity_connect_tenant:
  assumes "integrity d"
  shows "integrity (d\<lparr>db_properties :=
            map (\<lambda>p. if prop_id p = pid then p\<lparr>prop_tenants := insert cid (prop_tenants p)\<rparr> else p)
              (db_properties d)\<rparr>)"
proof -
  let ?ps = "map (\<lambda>p. if prop_id p = pid then p\<lparr>prop_tenants := insert cid (prop_tenants p)\<rparr> else p)
              (db_properties d)"
  have k: "\<And>i. (\<exists>x\<in>set ?ps. prop_id x = i) \<longleftrightarrow> (\<exists>x\<in>set (db_properties d). prop_id x = i)"
    by (rule bex_map_key) simp
  have b: "(\<forall>p\<in>set ?ps. prop_id p < db_propertySeq d
          \<and> (\<exists>l\<in>set (db_locations d). loc_id l = prop_locationId p)
          \<and> (\<exists>m\<in>set (db_managers d). manager_cognitoId m = prop_managerCognitoId p))
      \<longleftrightarrow> (\<forall>p\<in>set (db_properties d). prop_id p < db_propertySeq d
          \<and> (\<exists>l\<in>set (db_locations d). loc_id l = prop_locationId p)
          \<and> (\<exists>m\<in>set (db_managers d). manager_cognitoId m = prop_managerCognitoId p))"
    by (rule ball_map_keep) simp
  let ?d = "d\<lparr>db_properties := ?ps\<rparr>"
  have f: "db_leases ?d = db_leases d" "db_leaseSeq ?d = db_leaseSeq d"
    "db_applications ?d = db_applications d" "db_applicationSeq ?d = db_applicationSeq d"
    "db_properties ?d = ?ps" "db_propertySeq ?d = db_propertySeq d"
    "db_locations ?d = db_locations d" "db_locationSeq ?d = db_locationSeq d"
    "db_tenants ?d = db_tenants d" "db_managers ?d = db_managers d"
    by simp_all
  show ?thesis using assms unfolding integrity_set by (simp only: f k b)
qed

lemma integrity_update_application:
  assumes i: "integrity d"
    and u: "\<And>a. app_id (upd a) = app_id a \<and> app_propertyId (upd a) = app_propertyId a
            \<and> app_tenantCognitoId (upd a) = app_tenantCognitoId a"
    and l: "\<And>a k. app_leaseId (upd a) = Some k \<Longrightarrow>
            app_leaseId a = Some k \<or> find_lease d k \<noteq> None"
  shows "integrity (d\<lparr>db_applications :=
            map (\<lambda>a. if app_id a = aid then upd a else a) (db_applications d)\<rparr>)"
proof -
  let ?as = "map (\<lambda>a. if app_id a = aid then upd a else a) (db_applications d)"
  let ?P = "\<lambda>a. app_id a < db_applicationSeq d
          \<and> (\<exists>p\<in>set (db_properties d). prop_id p = app_propertyId a)
          \<and> (\<exists>t\<in>set (db_tenants d). tenant_cognitoId t = app_tenantCognitoId a)
          \<and> (\<forall>k. app_leaseId a = Some k \<longrightarrow> (\<exists>l\<in>set (db_leases d). lease_id l = k))"
  have old: "\<forall>a\<in>set (db_applications d). ?P a" using i unfolding integrity_set by blast
  have new: "\<forall>a\<in>set ?as. ?P a"
  proof
    fix b assume "b \<in> set ?as"
    then obtain a where a: "a \<in> set (db_applications d)" "b = (if app_id a = aid then upd a else a)"
      by auto
    show "?P b"
    proof (cases "app_id a = aid")
      case False
      then show ?thesis using a old by simp
    next
      case True
      have pa: "?P a" using a old by blast
      have "\<forall>k. app_leaseId (upd a) = Some k \<longrightarrow> (\<exists>l\<in>set (db_leases d). lease_id l = k)"
      proof (intro allI impI)
        fix k assume "app_leaseId (upd a) = Some k"
        then have "app_leaseId a = Some k \<or> find_lease d k \<noteq> None" by (rule l)
        then show "\<exists>l\<in>set (db_leases d). lease_id l = k"
          using pa unfolding find_lease_def found_iff by blast
      qed
      then show ?thesis using True a pa u[of a] by simp
    qed
  qed
  let ?d = "d\<lparr>db_applications := ?as\<rparr>"
  have f: "db_leases ?d = db_leases d" "db_leaseSeq ?d = db_leaseSeq d"
    "db_applications ?d = ?as" "db_applicationSeq ?d = db_applicationSeq d"
    "db_properties ?d = db_properties d" "db_propertySeq ?d = db_propertySeq d"
    "db_locations ?d = db_locations d" "db_locationSeq ?d = db_locationSeq d"
    "db_tenants ?d = db_tenants d" "db_managers ?d = db_managers d"
    by simp_all
  show ?thesis using i[unfolded integrity_set] new unfolding integrity_set f by blast
qed

lemma integrity_add_application:
  assumes "integrity d" "app_id a = db_applicationSeq d"
    and "find_property d (app_propertyId a) \<noteq> None"
    and "find_tenant d (app_tenantCognitoId a) \<noteq> None"
    and "case app_leaseId a of None \<Rightarrow> True | Some k \<Rightarrow> find_lease d k \<noteq> None"
  shows "integrity (d\<lparr>db_applications := db_applications d @ [a],
                      db_applicationSeq := Suc (db_applicationSeq d)\<rparr>)"
  using assms
  unfolding integrity_set find_property_def find_tenant_def find_lease_def found_iff case_option_all
  by (auto simp: less_Suc_eq)

lemma integrity_add_location:
  assumes "integrity d" "loc_id l = db_locationSeq d"
  shows "integrity (d\<lparr>db_locations := db_locations d @ [l],
                      db_locationSeq := Suc (db_locationSeq d)\<rparr>)"
  using assms unfolding integrity_set
  by (auto simp: less_Suc_eq)

lemma integrity_add_property:
  assumes "integrity d" "prop_id p = db_propertySeq d"
    and "find_location d (prop_locationId p) \<noteq> None"
    and "find_manager d (prop_managerCognitoId p) \<noteq> None"
  shows "integrity (d\<lparr>db_properties := db_properties d @ [p],
                      db_propertySeq := Suc (db_propertySeq d)\<rparr>)"
  using assms unfolding integrity_set find_location_def find_manager_def found_iff
  by (auto simp: less_Suc_eq)


lemma keeps_lease_create:
  "keeps integrity (\<lambda>d. True) (lease_create data)
     (\<lambda>l d. find_lease d (lease_id l) \<noteq> None)"
proof (rule keepsI)
  fix d msg d' assume "integrity d" "lease_create data d = Inl (msg, d')"
  then show "integrity d'"
    by (auto simp: lease_create_def Let_def split: option.splits if_splits)
next
  fix d l d' assume i: "integrity d" and c: "lease_create data d = Inr (l, d')"
  from c have d': "d' = d\<lparr>db_leases := db_leases d @ [l], db_leaseSeq := Suc (db_leaseSeq d)\<rparr>"
    and l: "lease_id l = db_leaseSeq d" "find_property d (lease_propertyId l) \<noteq> None"
      "find_tenant d (lease_tenantCognitoId l) \<noteq> None"
    by (auto simp: lease_create_def Let_def split: option.splits if_splits)
  have "integrity d'" unfolding d' using i l by (rule integrity_add_lease)
  moreover have "find_lease d' (lease_id l) \<noteq> None"
    unfolding d' find_lease_def by (simp add: found_last)
  ultimately show "integrity d' \<and> find_lease d' (lease_id l) \<noteq> None" by simp
qed

lemma keeps_property_connect_tenant:
  "keeps integrity (\<lambda>d. find_lease d k \<noteq> None) (property_connect_tenant pid cid)
     (\<lambda>_ d. find_lease d k \<noteq> None)"
proof (rule keepsI)
  fix d msg d' assume "integrity d" "property_connect_tenant pid cid d = Inl (msg, d')"
  then show "integrity d'"
    by (auto simp: property_connect_tenant_def split: if_splits)
next
  fix d x d'
  assume i: "integrity d" and f: "find_lease d k \<noteq> None"
    and c: "property_connect_tenant pid cid d = Inr (x, d')"
  from c have d': "d' = d\<lparr>db_properties :=
            map (\<lambda>p. if prop_id p = pid then p\<lparr>prop_tenants := insert cid (prop_tenants p)\<rparr> else p)
              (db_properties d)\<rparr>"
    by (auto simp: property_connect_tenant_def split: if_splits)
  have "integrity d'" unfolding d' using i by (rule integrity_connect_tenant)
  moreover have "find_lease d' k \<noteq> None" unfolding d' using f by (simp add: find_lease_def)
  ultimately show "integrity d' \<and> find_lease d' k \<noteq> None" by simp
qed

lemma keeps_application_update:
  assumes u: "\<And>a. app_id (upd a) = app_id a \<and> app_propertyId (upd a) = app_propertyId a
            \<and> app_tenantCognitoId (upd a) = app_tenantCognitoId a"
  shows "keeps integrity
     (\<lambda>d. \<forall>a k. app_leaseId (upd a) = Some k \<longrightarrow> app_leaseId a = Some k \<or> find_lease d k \<noteq> None)
     (application_update aid upd) (\<lambda>_ _. True)"
proof (rule keepsI)
  fix d msg d' assume "integrity d" "application_update aid upd d = Inl (msg, d')"
  then show "integrity d'"
    by (auto simp: application_update_def split: if_splits)
next
  fix d x d'
  assume i: "integrity d"
    and p: "\<forall>a k. app_leaseId (upd a) = Some k \<longrightarrow> app_leaseId a = Some k \<or> find_lease d k \<noteq> None"
    and c: "application_update aid upd d = Inr (x, d')"
  from c have d': "d' = d\<lparr>db_applications :=
            map (\<lambda>a. if app_id a = aid then upd a else a) (db_applications d)\<rparr>"
    by (auto simp: application_update_def split: if_splits)
  have "integrity d'" unfolding d' using i u p by (intro integrity_update_application) auto
  then show "integrity d' \<and> True" by simp
qed

lemma keeps_application_create:
  "keeps integrity (\<lambda>d. True) (application_create data) (\<lambda>_ _. True)"
proof (rule keepsI)
  fix d msg d' assume "integrity d" "application_create data d = Inl (msg, d')"
  then show "integrity d'"
    by (auto simp: application_create_def Let_def split: if_splits)
next
  fix d a d' assume i: "integrity d" and c: "application_create data d = Inr (a, d')"
  from c have d': "d' = d\<lparr>db_applications := db_applications d @ [a],
                      db_applicationSeq := Suc (db_applicationSeq d)\<rparr>"
    and a: "app_id a = db_applicationSeq d" "find_property d (app_propertyId a) \<noteq> None"
      "find_tenant d (app_tenantCognitoId a) \<noteq> None"
      "case app_leaseId a of None \<Rightarrow> True | Some k \<Rightarrow> find_lease d k \<noteq> None"
    by (auto simp: application_create_def Let_def split: if_splits option.splits)
  have "integrity d'" unfolding d' using i a by (rule integrity_add_application)
  then show "integrity d' \<and> True" by simp
qed

lemma keeps_location_insert:
  "keeps integrity (\<lambda>d. True) (location_insert a c s co pc pt) (\<lambda>_ _. True)"
proof (rule keepsI)
  fix d msg d' assume "integrity d" "location_insert a c s co pc pt d = Inl (msg, d')"
  then show "integrity d'" by (simp add: location_insert_def Let_def)
next
  fix d l d' assume i: "integrity d" and c: "location_insert a c s co pc pt d = Inr (l, d')"
  from c have d': "d' = d\<lparr>db_locations := db_locations d @ [l],
                      db_locationSeq := Suc (db_locationSeq d)\<rparr>"
    and l: "loc_id l = db_locationSeq d"
    by (auto simp: location_insert_def Let_def)
  have "integrity d'" unfolding d' using i l by (rule integrity_add_location)
  then show "integrity d' \<and> True" by simp
qed

lemma keeps_property_create:
  "keeps integrity (\<lambda>d. True) (property_create data) (\<lambda>_ _. True)"
proof (rule keepsI)
  fix d msg d' assume "integrity d" "property_create data d = Inl (msg, d')"
  then show "integrity d'"
    by (auto simp: property_create_def Let_def split: if_splits)
next
  fix d p d' assume i: "integrity d" and c: "property_create data d = Inr (p, d')"
  from c have d': "d' = d\<lparr>db_properties := db_properties d @ [p],
                      db_propertySeq := Suc (db_propertySeq d)\<rparr>"
    and p: "prop_id p = db_propertySeq d" "find_location d (prop_locationId p) \<noteq> None"
      "find_manager d (prop_managerCognitoId p) \<noteq> None"
    by (auto simp: property_create_def Let_def split: if_splits)
  have "integrity d'" unfolding d' using i p by (rule integrity_add_property)
  then show "integrity d' \<and> True" by simp
qed


lemma integrity_updateApplicationStatus:
  assumes i: "integrity d" and r: "updateApplicationStatus flt now aid status d = (r, d')"
  shows "integrity d'"
proof -
  let ?body = "bindDb (failing (flt 0) (application_findUnique aid)) (\<lambda>application.
          case application of
            None \<Rightarrow> returnDb (Message 404 ''Application not found.'')
          | Some v \<Rightarrow>
              bindDb
                (if status = ''Approved'' then
                   (case av_property v of
                      None \<Rightarrow> throwDb ''Cannot read properties of null''
                    | Some p \<Rightarrow>
                        bindDb (failing (flt 1) (lease_create
                                  \<lparr>ld_startDate = Some now,
                                   ld_endDate = oneYearFrom now,
                                   ld_rent = prop_pricePerMonth p,
                                   ld_deposit = prop_securityDeposit p,
                                   ld_propertyId = app_propertyId (av_app v),
                                   ld_tenantCognitoId = app_tenantCognitoId (av_app v)\<rparr>))
                          (\<lambda>newLease.
                        bindDb (failing (flt 2) (property_connect_tenant
                                  (app_propertyId (av_app v)) (app_tenantCognitoId (av_app v))))
                          (\<lambda>_.
                        failing (flt 3) (application_update aid
                          (\<lambda>a. a\<lparr>app_status := status, app_leaseId := Some (lease_id newLease)\<rparr>)))))
                 else
                   failing (flt 4) (application_update aid (\<lambda>a. a\<lparr>app_status := status\<rparr>)))
                (\<lambda>_.
              bindDb (failing (flt 5) (application_findUnique aid)) (\<lambda>updatedApplication.
              returnDb (Json 200 updatedApplication))))"
  have approve: "keeps integrity (\<lambda>_. True)
      (bindDb (failing (flt 1) (lease_create data))
         (\<lambda>newLease. bindDb (failing (flt 2) (property_connect_tenant pid cid))
            (\<lambda>_. failing (flt 3) (application_update aid
               (\<lambda>a. a\<lparr>app_status := status, app_leaseId := Some (lease_id newLease)\<rparr>)))))
      (\<lambda>_ _. True)" for data pid cid
  proof (rule keeps_bind[where mid = "\<lambda>l d. find_lease d (lease_id l) \<noteq> None"])
    show "keeps integrity (\<lambda>_. True) (failing (flt 1) (lease_create data))
        (\<lambda>l d. find_lease d (lease_id l) \<noteq> None)"
      by (rule keeps_failing) (rule keeps_lease_create)
  next
    fix l :: lease
    show "keeps integrity (\<lambda>d. find_lease d (lease_id l) \<noteq> None)
        (bindDb (failing (flt 2) (property_connect_tenant pid cid))
            (\<lambda>_. failing (flt 3) (application_update aid
               (\<lambda>a. a\<lparr>app_status := status, app_leaseId := Some (lease_id l)\<rparr>))))
        (\<lambda>_ _. True)"
    proof (rule keeps_bind[where mid = "\<lambda>_ d. find_lease d (lease_id l) \<noteq> None"])
      show "keeps integrity (\<lambda>d. find_lease d (lease_id l) \<noteq> None)
          (failing (flt 2) (property_connect_tenant pid cid))
          (\<lambda>_ d. find_lease d (lease_id l) \<noteq> None)"
        by (rule keeps_failing) (rule keeps_property_connect_tenant)
    next
      fix x :: unit
      have "keeps integrity
          (\<lambda>d. \<forall>(a::application) k. app_leaseId (a\<lparr>app_status := status, app_leaseId := Some (lease_id l)\<rparr>) = Some k
                  \<longrightarrow> app_leaseId a = Some k \<or> find_lease d k \<noteq> None)
          (application_update aid (\<lambda>a. a\<lparr>app_status := status, app_leaseId := Some (lease_id l)\<rparr>))
          (\<lambda>_ _. True)"
        by (rule keeps_application_update[where
              upd = "\<lambda>a. a\<lparr>app_status := status, app_leaseId := Some (lease_id l)\<rparr>"]) simp
      then have "keeps integrity (\<lambda>d. find_lease d (lease_id l) \<noteq> None)
          (application_update aid (\<lambda>a. a\<lparr>app_status := status, app_leaseId := Some (lease_id l)\<rparr>))
          (\<lambda>_ _. True)"
        by (rule keeps_weaken) auto
      then show "keeps integrity (\<lambda>d. find_lease d (lease_id l) \<noteq> None)
          (failing (flt 3) (application_update aid
               (\<lambda>a. a\<lparr>app_status := status, app_leaseId := Some (lease_id l)\<rparr>)))
          (\<lambda>_ _. True)"
        by (rule keeps_failing)
    qed
  qed
  have other: "keeps integrity (\<lambda>_. True)
      (failing (flt 4) (application_update aid (\<lambda>a. a\<lparr>app_status := status\<rparr>))) (\<lambda>_ _. True)"
  proof (rule keeps_failing)
    have "keeps integrity
          (\<lambda>d. \<forall>(a::application) k. app_leaseId (a\<lparr>app_status := status\<rparr>) = Some k
                  \<longrightarrow> app_leaseId a = Some k \<or> find_lease d k \<noteq> None)
          (application_update aid (\<lambda>a. a\<lparr>app_status := status\<rparr>)) (\<lambda>_ _. True)"
      by (rule keeps_application_update[where upd = "\<lambda>a. a\<lparr>app_status := status\<rparr>"]) simp
    then show "keeps integrity (\<lambda>_. True)
        (application_update aid (\<lambda>a. a\<lparr>app_status := status\<rparr>)) (\<lambda>_ _. True)"
      by (rule keeps_weaken) auto
  qed
  have last: "keeps integrity (\<lambda>_. True)
      (bindDb (failing (flt 5) (application_findUnique aid)) (\<lambda>updatedApplication.
              returnDb (Json 200 updatedApplication))) (\<lambda>_ _. True)"
  proof (rule keeps_bind[where mid = "\<lambda>_ _. True"])
    show "keeps integrity (\<lambda>_. True) (failing (flt 5) (application_findUnique aid)) (\<lambda>_ _. True)"
      unfolding application_findUnique_def by (rule keeps_failing) (rule keeps_read, simp)
  qed (rule keeps_return, simp)
  have "keeps integrity (\<lambda>_. True) ?body (\<lambda>_ _. True)"
  proof (rule keeps_bind[where mid = "\<lambda>_ _. True"])
    show "keeps integrity (\<lambda>_. True) (failing (flt 0) (application_findUnique aid)) (\<lambda>_ _. True)"
      unfolding application_findUnique_def by (rule keeps_failing) (rule keeps_read, simp)
  next
    fix application :: "appView option"
    show "keeps integrity (\<lambda>_. True)
        (case application of
            None \<Rightarrow> returnDb (Message 404 ''Application not found.'')
          | Some v \<Rightarrow>
              bindDb
                (if status = ''Approved'' then
                   (case av_property v of
                      None \<Rightarrow> throwDb ''Cannot read properties of null''
                    | Some p \<Rightarrow>
                        bindDb (failing (flt 1) (lease_create
                                  \<lparr>ld_startDate = Some now,
                                   ld_endDate = oneYearFrom now,
                                   ld_rent = prop_pricePerMonth p,
                                   ld_deposit = prop_securityDeposit p,
                                   ld_propertyId = app_propertyId (av_app v),
                                   ld_tenantCognitoId = app_tenantCognitoId (av_app v)\<rparr>))
                          (\<lambda>newLease.
                        bindDb (failing (flt 2) (property_connect_tenant
                                  (app_propertyId (av_app v)) (app_tenantCognitoId (av_app v))))
                          (\<lambda>_.
                        failing (flt 3) (application_update aid
                          (\<lambda>a. a\<lparr>app_status := status, app_leaseId := Some (lease_id newLease)\<rparr>)))))
                 else
                   failing (flt 4) (application_update aid (\<lambda>a. a\<lparr>app_status := status\<rparr>)))
                (\<lambda>_.
              bindDb (failing (flt 5) (application_findUnique aid)) (\<lambda>updatedApplication.
              returnDb (Json 200 updatedApplication))))
        (\<lambda>_ _. True)"
    proof (cases application)
      case None
      then show ?thesis by (simp add: keeps_return)
    next
      case (Some v)
      have "keeps integrity (\<lambda>_. True)
          (if status = ''Approved'' then
                   (case av_property v of
                      None \<Rightarrow> throwDb ''Cannot read properties of null''
                    | Some p \<Rightarrow>
                        bindDb (failing (flt 1) (lease_create
                                  \<lparr>ld_startDate = Some now,
                                   ld_endDate = oneYearFrom now,
                                   ld_rent = prop_pricePerMonth p,
                                   ld_deposit = prop_securityDeposit p,
                                   ld_propertyId = app_propertyId (av_app v),
                                   ld_tenantCognitoId = app_tenantCognitoId (av_app v)\<rparr>))
                          (\<lambda>newLease.
                        bindDb (failing (flt 2) (property_connect_tenant
                                  (app_propertyId (av_app v)) (app_tenantCognitoId (av_app v))))
                          (\<lambda>_.
                        failing (flt 3) (application_update aid
                          (\<lambda>a. a\<lparr>app_status := status, app_leaseId := Some (lease_id newLease)\<rparr>)))))
                 else
                   failing (flt 4) (application_update aid (\<lambda>a. a\<lparr>app_status := status\<rparr>)))
          (\<lambda>_ _. True)"
      proof (cases "status = ''Approved''")
        case False
        show ?thesis unfolding if_not_P[OF False] by (rule other)
      next
        case True
        show ?thesis
        proof (cases "av_property v")
          case None
          show ?thesis unfolding if_P[OF True] None option.case by (rule keeps_throw)
        next
          case (Some p)
          show ?thesis unfolding if_P[OF True] Some option.case by (rule approve)
        qed
      qed
      then show ?thesis unfolding Some option.case
        by (rule keeps_bind[where mid = "\<lambda>_ _. True"]) (rule last)
    qed
  qed
  then have "case ?body d of Inl (msg, d') \<Rightarrow> integrity d' | Inr (x, d') \<Rightarrow> integrity d' \<and> True"
    using i unfolding keeps_def by blast
  moreover have "(r, d') = (case ?body d of
        Inl (msg, d') \<Rightarrow> (Message 500 (''Error updating application status: '' @ msg), d')
      | Inr (r, d') \<Rightarrow> (r, d'))"
    using r unfolding updateApplicationStatus_def by simp
  ultimately show ?thesis by (auto split: sum.splits prod.splits)
qed


lemma integrity_createApplication:
  assumes i: "integrity d" and r: "createApplication flt now req d = (r, d')"
  shows "integrity d'"
proof -
  let ?create = "\<lambda>p. transaction
                   (bindDb (failing (flt 1) (lease_create
                              \<lparr>ld_startDate = Some now,
                               ld_endDate = oneYearFrom now,
                               ld_rent = prop_pricePerMonth p,
                               ld_deposit = prop_securityDeposit p,
                               ld_propertyId = ca_propertyId req,
                               ld_tenantCognitoId = ca_tenantCognitoId req\<rparr>))
                      (\<lambda>lease.
                    bindDb (failing (flt 2)
                              (case ca_applicationDate req of
                                 None \<Rightarrow> throwDb ''Invalid value for argument: provided Date object is invalid''
                               | Some t \<Rightarrow>
                                   application_create
                                     \<lparr>app_id = 0, app_applicationDate = t, app_status = ca_status req,
                                      app_propertyId = ca_propertyId req,
                                      app_tenantCognitoId = ca_tenantCognitoId req,
                                      app_name = ca_name req, app_email = ca_email req,
                                      app_phoneNumber = ca_phoneNumber req,
                                      app_message = ca_message req,
                                      app_leaseId = Some (lease_id lease)\<rparr>))
                      (\<lambda>application.
                    failing (flt 3) (\<lambda>d. Inr (view_application d application, d)))))"
  let ?body = "bindDb (failing (flt 0) (\<lambda>d. Inr (find_property d (ca_propertyId req), d))) (\<lambda>property.
          case property of
            None \<Rightarrow> returnDb (Message 404 ''Property not found.'')
          | Some p \<Rightarrow> bindDb (?create p) (\<lambda>newApplication. returnDb (Json 201 newApplication)))"
  have create: "keeps integrity (\<lambda>_. True) (?create p) (\<lambda>_ _. True)" for p
  proof (rule keeps_transaction, rule keeps_bind[where mid = "\<lambda>_ _. True"])
    show "keeps integrity (\<lambda>_. True) (failing (flt 1) (lease_create
                              \<lparr>ld_startDate = Some now,
                               ld_endDate = oneYearFrom now,
                               ld_rent = prop_pricePerMonth p,
                               ld_deposit = prop_securityDeposit p,
                               ld_propertyId = ca_propertyId req,
                               ld_tenantCognitoId = ca_tenantCognitoId req\<rparr>)) (\<lambda>_ _. True)"
      by (rule keeps_failing, rule keeps_weaken, rule keeps_lease_create) simp_all
  next
    fix lease :: lease
    show "keeps integrity (\<lambda>_. True)
        (bindDb (failing (flt 2)
                              (case ca_applicationDate req of
                                 None \<Rightarrow> throwDb ''Invalid value for argument: provided Date object is invalid''
                               | Some t \<Rightarrow>
                                   application_create
                                     \<lparr>app_id = 0, app_applicationDate = t, app_status = ca_status req,
                                      app_propertyId = ca_propertyId req,
                                      app_tenantCognitoId = ca_tenantCognitoId req,
                                      app_name = ca_name req, app_email = ca_email req,
                                      app_phoneNumber = ca_phoneNumber req,
                                      app_message = ca_message req,
                                      app_leaseId = Some (lease_id lease)\<rparr>))
                      (\<lambda>application.
                    failing (flt 3) (\<lambda>d. Inr (view_application d application, d))))
        (\<lambda>_ _. True)"
    proof (rule keeps_bind[where mid = "\<lambda>_ _. True"])
      show "keeps integrity (\<lambda>_. True) (failing (flt 2)
                              (case ca_applicationDate req of
                                 None \<Rightarrow> throwDb ''Invalid value for argument: provided Date object is invalid''
                               | Some t \<Rightarrow>
                                   application_create
                                     \<lparr>app_id = 0, app_applicationDate = t, app_status = ca_status req,
                                      app_propertyId = ca_propertyId req,
                                      app_tenantCognitoId = ca_tenantCognitoId req,
                                      app_name = ca_name req, app_email = ca_email req,
                                      app_phoneNumber = ca_phoneNumber req,
                                      app_message = ca_message req,
                                      app_leaseId = Some (lease_id lease)\<rparr>)) (\<lambda>_ _. True)"
        by (rule keeps_failing) (cases "ca_applicationDate req";
            simp add: keeps_throw keeps_application_create)
    next
      fix application :: application
      show "keeps integrity (\<lambda>_. True)
          (failing (flt 3) (\<lambda>d. Inr (view_application d application, d))) (\<lambda>_ _. True)"
        by (rule keeps_failing) (rule keeps_read, simp)
    qed
  qed
  have "keeps integrity (\<lambda>_. True) ?body (\<lambda>_ _. True)"
  proof (rule keeps_bind[where mid = "\<lambda>_ _. True"])
    show "keeps integrity (\<lambda>_. True)
        (failing (flt 0) (\<lambda>d. Inr (find_property d (ca_propertyId req), d))) (\<lambda>_ _. True)"
      by (rule keeps_failing) (rule keeps_read, simp)
  next
    fix property :: "property option"
    show "keeps integrity (\<lambda>_. True)
        (case property of
            None \<Rightarrow> returnDb (Message 404 ''Property not found.'')
          | Some p \<Rightarrow> bindDb (?create p) (\<lambda>newApplication. returnDb (Json 201 newApplication)))
        (\<lambda>_ _. True)"
    proof (cases property)
      case None
      show ?thesis unfolding None option.case by (rule keeps_return) simp
    next
      case (Some p)
      show ?thesis unfolding Some option.case
        by (rule keeps_bind[where mid = "\<lambda>_ _. True"], rule create, rule keeps_return) simp
    qed
  qed
  then have "case ?body d of Inl (msg, d') \<Rightarrow> integrity d' | Inr (x, d') \<Rightarrow> integrity d' \<and> True"
    using i unfolding keeps_def by blast
  moreover have "(r, d') = (case ?body d of
        Inl (msg, d') \<Rightarrow> (Message 500 (''Error creating application: '' @ msg), d')
      | Inr (r, d') \<Rightarrow> (r, d'))"
    using r unfolding createApplication_def by (rule sym)
  ultimately show ?thesis by (auto split: sum.splits prod.splits)
qed

lemma integrity_createProperty:
  assumes i: "integrity d" and r: "createProperty upload geocode flt req d = (r, d')"
  shows "integrity d'"
proof (cases "upload_all upload (cp_files req)")
  case (Inl m)
  then show ?thesis using i r by (simp add: createProperty_def)
next
  case urls: (Inr urls)
  show ?thesis
  proof (cases "geocode (cp_address req) (cp_city req) (cp_country req) (cp_postalCode req)")
    case (Inl m)
    then show ?thesis using i r urls by (simp add: createProperty_def)
  next
    case data: (Inr data)
    let ?body = "bindDb (failing (flt 0)
                            (location_insert (cp_address req) (cp_city req) (cp_state req)
                               (cp_country req) (cp_postalCode req) (geocoded_point data)))
                    (\<lambda>location.
                  bindDb (failing (flt 1)
                            (property_create (property_data req urls (loc_id location))))
                    (\<lambda>newProperty d'.
                  Inr (Json 201
                         \<lparr>pv_property = newProperty,
                          pv_location = find_location d' (prop_locationId newProperty),
                          pv_manager = find_manager d' (prop_managerCognitoId newProperty)\<rparr>, d')))"
    have "keeps integrity (\<lambda>_. True) ?body (\<lambda>_ _. True)"
    proof (rule keeps_bind[where mid = "\<lambda>_ _. True"])
      show "keeps integrity (\<lambda>_. True) (failing (flt 0)
                            (location_insert (cp_address req) (cp_city req) (cp_state req)
                               (cp_country req) (cp_postalCode req) (geocoded_point data)))
          (\<lambda>_ _. True)"
        by (rule keeps_failing) (rule keeps_location_insert)
    next
      fix location :: location
      show "keeps integrity (\<lambda>_. True)
          (bindDb (failing (flt 1)
                            (property_create (property_data req urls (loc_id location))))
                    (\<lambda>newProperty d'.
                  Inr (Json 201
                         \<lparr>pv_property = newProperty,
                          pv_location = find_location d' (prop_locationId newProperty),
                          pv_manager = find_manager d' (prop_managerCognitoId newProperty)\<rparr>, d')))
          (\<lambda>_ _. True)"
      proof (rule keeps_bind[where mid = "\<lambda>_ _. True"])
        show "keeps integrity (\<lambda>_. True) (failing (flt 1)
                            (property_create (property_data req urls (loc_id location))))
            (\<lambda>_ _. True)"
          by (rule keeps_failing) (rule keeps_property_create)
      next
        fix newProperty :: property
        show "keeps integrity (\<lambda>_. True)
            (\<lambda>d'. Inr (Json 201
                         \<lparr>pv_property = newProperty,
                          pv_location = find_location d' (prop_locationId newProperty),
                          pv_manager = find_manager d' (prop_managerCognitoId newProperty)\<rparr>, d'))
            (\<lambda>_ _. True)"
          by (rule keeps_read) simp
      qed
    qed
    then have "case ?body d of Inl (msg, d') \<Rightarrow> integrity d' | Inr (x, d') \<Rightarrow> integrity d' \<and> True"
      using i unfolding keeps_def by blast
    moreover have "(r, d') = (case ?body d of
          Inl (msg, d') \<Rightarrow> (Message 500 (''Error creating property: '' @ msg), d')
        | Inr (r, d') \<Rightarrow> (r, d'))"
      using r urls data unfolding createProperty_def by simp
    ultimately show ?thesis by (auto split: sum.splits prod.splits)
  qed
qed

section \<open>Listing applications\<close>

lemma latest_None: "latest ms = None \<longleftrightarrow> ms = []"
  by (induction ms) (auto split: option.splits)

lemma latest_Some:
  "latest ms = Some l \<Longrightarrow> l \<in> set ms \<and> (\<forall>m\<in>set ms. lease_startDate m \<le> lease_startDate l)"
proof (induction ms arbitrary: l)
  case Nil
  then show ?case by simp
next
  case (Cons x xs)
  show ?case
  proof (cases "latest xs")
    case None
    then have "xs = []" by (simp add: latest_None)
    then show ?thesis using Cons.prems by simp
  next
    case (Some m)
    from Cons.IH[OF Some] have m: "m \<in> set xs" "\<forall>k\<in>set xs. lease_startDate k \<le> lease_startDate m"
      by auto
    show ?thesis
    proof (cases "lease_startDate x < lease_startDate m")
      case True
      then have "l = m" using Cons.prems Some by simp
      then show ?thesis using m True by auto
    next
      case False
      then have "l = x" using Cons.prems Some by simp
      then show ?thesis using m False by fastforce
    qed
  qed
qed

lemma formatApplication_Inr:
  assumes "formatApplication fault now app d = Inr (f, d')"
  shows "d' = d \<and> fa_app f = ai_app app
    \<and> fa_lease f =
        (case latest (matching_leases d (app_tenantCognitoId (ai_app app)) (app_propertyId (ai_app app))) of
           None \<Rightarrow> None
         | Some x \<Rightarrow> Some \<lparr>fl_lease = x,
               fl_nextPaymentDate = calculateNextPaymentDate (Some now) (Some (lease_startDate x))\<rparr>)"
  using assms
  by (auto simp: formatApplication_def bindDb_def failing_def throwDb_def returnDb_def
      lease_findFirst_def split: option.splits sum.splits prod.splits)

lemma formatApplication_ok:
  assumes "ai_property app = Some p" "ai_location app = Some l"
  shows "\<exists>f. formatApplication None now app d = Inr (f, d)"
  using assms
  by (simp add: formatApplication_def bindDb_def failing_def returnDb_def lease_findFirst_def)

lemma mapDb_Inr:
  assumes "\<And>i x d y d'. f i x d = Inr (y, d') \<Longrightarrow> d' = d \<and> P d x y"
    and "mapDb f i xs d = Inr (ys, d')"
  shows "d' = d \<and> list_all2 (P d) xs ys"
  using assms(2)
proof (induction xs arbitrary: i ys d')
  case Nil
  then show ?case by (simp add: returnDb_def)
next
  case (Cons x xs)
  from Cons.prems obtain y d1 where y: "f i x d = Inr (y, d1)"
    by (auto simp: bindDb_def split: sum.splits)
  then have d1: "d1 = d" "P d x y" using assms(1) by blast+
  from Cons.prems y d1 obtain zs d2 where zs: "mapDb f (Suc i) xs d = Inr (zs, d2)"
    by (auto simp: bindDb_def split: sum.splits)
  from Cons.IH[OF zs] have ih: "d2 = d" "list_all2 (P d) xs zs" by auto
  from Cons.prems y d1 zs ih have "ys = y # zs" "d' = d"
    by (auto simp: bindDb_def returnDb_def)
  then show ?case using d1 ih by simp
qed

lemma mapDb_ok:
  assumes "\<And>i x. x \<in> set xs \<Longrightarrow> \<exists>y. f i x d = Inr (y, d)"
  shows "\<exists>ys. mapDb f i xs d = Inr (ys, d)"
  using assms
proof (induction xs arbitrary: i)
  case Nil
  then show ?case by (simp add: returnDb_def)
next
  case (Cons x xs)
  from Cons.prems[of x i] obtain y where y: "f i x d = Inr (y, d)" by auto
  have "\<exists>ys. mapDb f (Suc i) xs d = Inr (ys, d)"
    by (rule Cons.IH) (use Cons.prems in auto)
  then obtain ys where "mapDb f (Suc i) xs d = Inr (ys, d)" by blast
  then show ?case using y by (simp add: bindDb_def returnDb_def)
qed

lemma listApplications_Json:
  assumes "listApplications flt now userId userType d = Json 200 fs"
  shows "list_all2 (attached d now)
           (map (include_application d)
              (filter (app_matches d (whereClause userId userType)) (db_applications d))) fs"
proof -
  let ?apps = "map (include_application d)
              (filter (app_matches d (whereClause userId userType)) (db_applications d))"
  from assms obtain d' where m: "mapDb (\<lambda>i. formatApplication (flt (Suc i)) now) 0 ?apps d = Inr (fs, d')"
    by (auto simp: listApplications_def bindDb_def failing_def throwDb_def returnDb_def
        application_findMany_def split: option.splits sum.splits prod.splits)
  have "d' = d \<and> list_all2 (\<lambda>x y. attached d now x y) ?apps fs"
  proof (rule mapDb_Inr[where f = "\<lambda>i. formatApplication (flt (Suc i)) now" and P = "\<lambda>d. attached d now", OF _ m])
    fix i x d y d'
    assume "formatApplication (flt (Suc i)) now x d = Inr (y, d')"
    then show "d' = d \<and> attached d now x y"
      using formatApplication_Inr unfolding attached_def by blast
  qed
  then show ?thesis by simp
qed

lemma list_all2_fa_app: "list_all2 (\<lambda>a f. fa_app f = a) xs ys \<Longrightarrow> map fa_app ys = xs"
  by (induction xs ys rule: list_all2_induct) auto

lemma listApplications_apps:
  assumes "listApplications flt now userId userType d = Json 200 fs"
  shows "map fa_app fs = filter (app_matches d (whereClause userId userType)) (db_applications d)"
proof -
  let ?as = "filter (app_matches d (whereClause userId userType)) (db_applications d)"
  have "list_all2 (attached d now) (map (include_application d) ?as) fs"
    using assms by (rule listApplications_Json)
  then have "list_all2 (\<lambda>a f. fa_app f = a) ?as fs"
    by (simp add: list_all2_map1 attached_def include_application_def Let_def list_all2_mono)
  then show ?thesis by (rule list_all2_fa_app)
qed


lemma integrity_includes:
  assumes "integrity d" "a \<in> set (db_applications d)"
  shows "\<exists>p l. ai_property (include_application d a) = Some p
           \<and> ai_location (include_application d a) = Some l"
proof -
  from assms obtain p where p: "find_property d (app_propertyId a) = Some p"
    by (auto simp: integrity_def)
  then have "p \<in> set (db_properties d)" by (auto simp: find_property_def dest: find_Some_set)
  then obtain l where "find_location d (prop_locationId p) = Some l"
    using assms(1) by (auto simp: integrity_def)
  then show ?thesis using p by (simp add: include_application_def Let_def)
qed

lemma listApplications_ok:
  assumes "integrity d"
  shows "\<exists>fs. listApplications no_faults now userId userType d = Json 200 fs"
proof -
  let ?apps = "map (include_application d)
              (filter (app_matches d (whereClause userId userType)) (db_applications d))"
  have "\<exists>ys. mapDb (\<lambda>i. formatApplication (no_faults (Suc i)) now) 0 ?apps d = Inr (ys, d)"
  proof (rule mapDb_ok)
    fix i x assume "x \<in> set ?apps"
    then obtain a where "a \<in> set (db_applications d)" "x = include_application d a" by auto
    then obtain p l where "ai_property x = Some p" "ai_location x = Some l"
      using integrity_includes[OF assms] by blast
    then show "\<exists>y. formatApplication (no_faults (Suc i)) now x d = Inr (y, d)"
      using formatApplication_ok by (simp add: no_faults_def)
  qed
  then obtain ys where "mapDb (\<lambda>i. formatApplication (no_faults (Suc i)) now) 0 ?apps d = Inr (ys, d)"
    by blast
  then have "listApplications no_faults now userId userType d = Json 200 ys"
    by (simp add: listApplications_def bindDb_def failing_def returnDb_def
        application_findMany_def no_faults_def)
  then show ?thesis by blast
qed


lemma listApplications_member:
  assumes "listApplications flt now userId userType d = Json 200 fs" "f \<in> set fs"
  shows "fa_lease f =
        (case latest (matching_leases d (app_tenantCognitoId (fa_app f)) (app_propertyId (fa_app f))) of
           None \<Rightarrow> None
         | Some x \<Rightarrow> Some \<lparr>fl_lease = x,
               fl_nextPaymentDate = calculateNextPaymentDate (Some now) (Some (lease_startDate x))\<rparr>)"
proof -
  from listApplications_Json[OF assms(1)] assms(2)
  obtain app where "attached d now app f"
    by (auto simp: in_set_conv_nth list_all2_conv_all_nth)
  then show ?thesis by (simp add: attached_def)
qed

lemma example_list:
  "listApplications no_faults example_now None None example_db =
     Json 200
       [\<lparr>fa_app = example_application, fa_property = example_property,
         fa_location = example_location, fa_address = ''1 Main Street'',
         fa_manager = Some example_manager, fa_tenant = Some example_tenant,
         fa_lease = Some \<lparr>fl_lease = example_lease1, fl_nextPaymentDate = DateUTC 2023 3 1\<rparr>\<rparr>]"
  by code_simp

lemma example_matching:
  "matching_leases example_db ''tenant-1'' 0 = [example_lease0, example_lease1]"
  by (simp add: matching_leases_def example_db_def example_lease0_def example_lease1_def)

text \<open>
  Claim C10. When \<^verbatim>\<open>userId\<close> or \<^verbatim>\<open>userType\<close> is missing (or empty), or \<^verbatim>\<open>userType\<close> is
  neither \<^verbatim>\<open>tenant\<close> nor \<^verbatim>\<open>manager\<close>, the \<^verbatim>\<open>where\<close> clause is empty, and a list that is
  answered holds every application of the database, in the order of the table. On a
  database that keeps its constraints, with no database call failing, the list is
  answered.
\<close>

theorem listApplications_unscoped:
  "(\<not> truthy userId \<or> \<not> truthy userType
      \<or> (userType \<noteq> Some (QStr ''tenant'') \<and> userType \<noteq> Some (QStr ''manager''))) \<longrightarrow>
     whereClause userId userType = WhereAll
     \<and> (\<forall>fs. listApplications flt now userId userType d = Json 200 fs \<longrightarrow>
            map fa_app fs = db_applications d)
     \<and> (integrity d \<longrightarrow>
            (\<exists>fs. listApplications no_faults now userId userType d = Json 200 fs
                 \<and> map fa_app fs = db_applications d))"
proof (intro impI)
  assume h: "\<not> truthy userId \<or> \<not> truthy userType
      \<or> (userType \<noteq> Some (QStr ''tenant'') \<and> userType \<noteq> Some (QStr ''manager''))"
  then have w: "whereClause userId userType = WhereAll"
    by (auto simp: whereClause_def)
  have a: "\<And>flt fs. listApplications flt now userId userType d = Json 200 fs \<Longrightarrow>
            map fa_app fs = db_applications d"
    using listApplications_apps[of _ now userId userType d] w by simp
  have "integrity d \<longrightarrow>
            (\<exists>fs. listApplications no_faults now userId userType d = Json 200 fs
                 \<and> map fa_app fs = db_applications d)"
    using listApplications_ok[of d now userId userType] a by blast
  then show "whereClause userId userType = WhereAll
     \<and> (\<forall>fs. listApplications flt now userId userType d = Json 200 fs \<longrightarrow>
            map fa_app fs = db_applications d)
     \<and> (integrity d \<longrightarrow>
            (\<exists>fs. listApplications no_faults now userId userType d = Json 200 fs
                 \<and> map fa_app fs = db_applications d))"
    using w a by blast
qed

theorem listApplications_unscoped_witness:
  "\<not> truthy None \<and> integrity example_db
   \<and> whereClause None (Some (QStr ''tenant'')) = WhereAll
   \<and> (\<exists>fs. listApplications no_faults example_now None (Some (QStr ''tenant'')) example_db = Json 200 fs
          \<and> map fa_app fs = [example_application])"
proof -
  have h: "\<not> truthy None" by simp
  note t = listApplications_unscoped[of None "Some (QStr ''tenant'')" no_faults example_now example_db]
  from t h integrity_example
  have "whereClause None (Some (QStr ''tenant'')) = WhereAll
     \<and> (\<exists>fs. listApplications no_faults example_now None (Some (QStr ''tenant'')) example_db = Json 200 fs
          \<and> map fa_app fs = db_applications example_db)"
    by blast
  then show ?thesis using h integrity_example by (simp add: example_db_def)
qed

text \<open>
  Claim C9. For every application of an answered list: when no lease matches the tenant and
  the property of the application, the lease of the entry is \<^verbatim>\<open>null\<close>; otherwise it is a
  lease among the matching ones whose start date no matching lease exceeds, together with
  the next payment date computed from that start date. The lease reference of the
  application plays no part: in the example database the application refers to lease 0 and
  the list attaches lease 1, which starts later.
\<close>

theorem listApplications_latest_lease:
  "(listApplications flt now userId userType d = Json 200 fs \<and> f \<in> set fs \<longrightarrow>
      (matching_leases d (app_tenantCognitoId (fa_app f)) (app_propertyId (fa_app f)) = [] \<longrightarrow>
          fa_lease f = None)
      \<and> (matching_leases d (app_tenantCognitoId (fa_app f)) (app_propertyId (fa_app f)) \<noteq> [] \<longrightarrow>
          (\<exists>l. fa_lease f =
                  Some \<lparr>fl_lease = l,
                        fl_nextPaymentDate =
                          calculateNextPaymentDate (Some now) (Some (lease_startDate l))\<rparr>
               \<and> l \<in> set (matching_leases d (app_tenantCognitoId (fa_app f)) (app_propertyId (fa_app f)))
               \<and> (\<forall>m\<in>set (matching_leases d (app_tenantCognitoId (fa_app f)) (app_propertyId (fa_app f))).
                     lease_startDate m \<le> lease_startDate l))))
   \<and> (\<exists>f. listApplications no_faults example_now None None example_db = Json 200 [f]
          \<and> app_leaseId (fa_app f) = Some 0
          \<and> map_option fl_lease (fa_lease f) = Some example_lease1
          \<and> lease_id example_lease1 = 1)"
proof (intro conjI impI)
  assume h: "listApplications flt now userId userType d = Json 200 fs \<and> f \<in> set fs"
  let ?ms = "matching_leases d (app_tenantCognitoId (fa_app f)) (app_propertyId (fa_app f))"
  have e: "fa_lease f =
        (case latest ?ms of
           None \<Rightarrow> None
         | Some x \<Rightarrow> Some \<lparr>fl_lease = x,
               fl_nextPaymentDate = calculateNextPaymentDate (Some now) (Some (lease_startDate x))\<rparr>)"
    using h listApplications_member by blast
  {
    assume "?ms = []"
    then show "fa_lease f = None" using e by simp
  }
  {
    assume "?ms \<noteq> []"
    then obtain l where l: "latest ?ms = Some l" using latest_None[of ?ms] by auto
    then have "l \<in> set ?ms \<and> (\<forall>m\<in>set ?ms. lease_startDate m \<le> lease_startDate l)"
      by (rule latest_Some)
    then show "\<exists>l. fa_lease f =
                  Some \<lparr>fl_lease = l,
                        fl_nextPaymentDate =
                          calculateNextPaymentDate (Some now) (Some (lease_startDate l))\<rparr>
               \<and> l \<in> set ?ms \<and> (\<forall>m\<in>set ?ms. lease_startDate m \<le> lease_startDate l)"
      using e l by auto
  }
next
  show "\<exists>f. listApplications no_faults example_now None None example_db = Json 200 [f]
          \<and> app_leaseId (fa_app f) = Some 0
          \<and> map_option fl_lease (fa_lease f) = Some example_lease1
          \<and> lease_id example_lease1 = 1"
    using example_list by (simp add: example_application_def example_lease1_def)
qed

theorem listApplications_latest_lease_witness:
  "(\<exists>f. listApplications no_faults example_now None None example_db = Json 200 [f]
        \<and> matching_leases example_db (app_tenantCognitoId (fa_app f)) (app_propertyId (fa_app f))
            = [example_lease0, example_lease1]
        \<and> (\<exists>l. fa_lease f =
                  Some \<lparr>fl_lease = l,
                        fl_nextPaymentDate =
                          calculateNextPaymentDate (Some example_now) (Some (lease_startDate l))\<rparr>
               \<and> l \<in> set [example_lease0, example_lease1]
               \<and> lease_startDate example_lease0 \<le> lease_startDate l
               \<and> lease_startDate example_lease1 \<le> lease_startDate l))"
proof -
  define f where "f = \<lparr>fa_app = example_application, fa_property = example_property,
         fa_location = example_location, fa_address = ''1 Main Street'',
         fa_manager = Some example_manager, fa_tenant = Some example_tenant,
         fa_lease = Some \<lparr>fl_lease = example_lease1, fl_nextPaymentDate = DateUTC 2023 3 1\<rparr>\<rparr>"
  have r: "listApplications no_faults example_now None None example_db = Json 200 [f]"
    unfolding f_def by (rule example_list)
  have m: "matching_leases example_db (app_tenantCognitoId (fa_app f)) (app_propertyId (fa_app f))
            = [example_lease0, example_lease1]"
    using example_matching by (simp add: f_def example_application_def)
  note t = listApplications_latest_lease[of no_faults example_now None None example_db "[f]" f]
  from t r m have "\<exists>l. fa_lease f =
                  Some \<lparr>fl_lease = l,
                        fl_nextPaymentDate =
                          calculateNextPaymentDate (Some example_now) (Some (lease_startDate l))\<rparr>
               \<and> l \<in> set [example_lease0, example_lease1]
               \<and> (\<forall>m\<in>set [example_lease0, example_lease1]. lease_startDate m \<le> lease_startDate l)"
    by simp
  then show ?thesis using r m by auto
qed

section \<open>Updating the status of an application\<close>

subsection \<open>A status other than Approved\<close>

lemma updateApplicationStatus_other:
  assumes "find_application d aid = Some a" "status \<noteq> ''Approved''"
  shows "updateApplicationStatus flt now aid status d =
     (case flt 0 of
        Some m \<Rightarrow> (Message 500 (''Error updating application status: '' @ m), d)
      | None \<Rightarrow>
         (case flt 4 of
            Some m \<Rightarrow> (Message 500 (''Error updating application status: '' @ m), d)
          | None \<Rightarrow>
             (case flt 5 of
                Some m \<Rightarrow> (Message 500 (''Error updating application status: '' @ m),
                            set_status aid status d)
              | None \<Rightarrow>
                 (Json 200 (map_option (view_application (set_status aid status d))
                              (find_application (set_status aid status d) aid)),
                  set_status aid status d))))"
  using assms
  by (simp add: updateApplicationStatus_def bindDb_def failing_def throwDb_def returnDb_def
      application_findUnique_def application_update_def set_status_def
      split: option.splits)

lemma find_application_set_status:
  assumes "find_application d aid = Some a"
  shows "find_application (set_status aid status d) aid = Some (a\<lparr>app_status := status\<rparr>)"
  using find_map_update[of app_id aid "db_applications d" a "\<lambda>x. x\<lparr>app_status := status\<rparr>"] assms
  by (simp add: find_application_def set_status_def)

text \<open>
  Claim C6. For every existing application and every status other than \<^verbatim>\<open>Approved\<close>,
  whatever calls fail: no lease is created, no application's lease reference changes, and
  the database is left as it was or differs from it only in the status of the application.
  When the reading and the update go through, the application has the new status.
\<close>

theorem updateApplicationStatus_not_approved:
  "find_application d aid = Some a \<and> status \<noteq> ''Approved''
     \<and> updateApplicationStatus flt now aid status d = (r, d') \<longrightarrow>
       db_leases d' = db_leases d \<and> db_leaseSeq d' = db_leaseSeq d
     \<and> map app_leaseId (db_applications d') = map app_leaseId (db_applications d)
     \<and> (d' = d \<or> d' = set_status aid status d)
     \<and> (flt 0 = None \<and> flt 4 = None \<longrightarrow>
           d' = set_status aid status d
           \<and> find_application d' aid = Some (a\<lparr>app_status := status\<rparr>))"
proof (intro impI)
  assume h: "find_application d aid = Some a \<and> status \<noteq> ''Approved''
     \<and> updateApplicationStatus flt now aid status d = (r, d')"
  then have e: "(r, d') =
     (case flt 0 of
        Some m \<Rightarrow> (Message 500 (''Error updating application status: '' @ m), d)
      | None \<Rightarrow>
         (case flt 4 of
            Some m \<Rightarrow> (Message 500 (''Error updating application status: '' @ m), d)
          | None \<Rightarrow>
             (case flt 5 of
                Some m \<Rightarrow> (Message 500 (''Error updating application status: '' @ m),
                            set_status aid status d)
              | None \<Rightarrow>
                 (Json 200 (map_option (view_application (set_status aid status d))
                              (find_application (set_status aid status d) aid)),
                  set_status aid status d))))"
    using updateApplicationStatus_other[of d aid a status flt now] by simp
  then have c: "d' = d \<or> d' = set_status aid status d"
    by (auto split: option.splits)
  have s: "db_leases (set_status aid status d) = db_leases d"
    "db_leaseSeq (set_status aid status d) = db_leaseSeq d"
    "map app_leaseId (db_applications (set_status aid status d)) = map app_leaseId (db_applications d)"
    by (simp_all add: set_status_def comp_def)
  have f: "flt 0 = None \<and> flt 4 = None \<longrightarrow> d' = set_status aid status d"
    using e by (auto split: option.splits)
  show "db_leases d' = db_leases d \<and> db_leaseSeq d' = db_leaseSeq d
     \<and> map app_leaseId (db_applications d') = map app_leaseId (db_applications d)
     \<and> (d' = d \<or> d' = set_status aid status d)
     \<and> (flt 0 = None \<and> flt 4 = None \<longrightarrow>
           d' = set_status aid status d
           \<and> find_application d' aid = Some (a\<lparr>app_status := status\<rparr>))"
    using c s f h find_application_set_status[of d aid a status] by auto
qed

theorem updateApplicationStatus_not_approved_witness:
  "find_application example_db 0 = Some example_application \<and> ''Denied'' \<noteq> ''Approved''
   \<and> no_faults 0 = None \<and> no_faults 4 = None
   \<and> db_leases (snd (updateApplicationStatus no_faults example_now 0 ''Denied'' example_db))
       = db_leases example_db
   \<and> find_application (snd (updateApplicationStatus no_faults example_now 0 ''Denied'' example_db)) 0
       = Some (example_application\<lparr>app_status := ''Denied''\<rparr>)
   \<and> app_leaseId (example_application\<lparr>app_status := ''Denied''\<rparr>) = Some 0"
proof -
  obtain r d' where rd: "updateApplicationStatus no_faults example_now 0 ''Denied'' example_db = (r, d')"
    by (cases "updateApplicationStatus no_faults example_now 0 ''Denied'' example_db")
  have n: "no_faults 0 = None \<and> no_faults 4 = None" by (simp add: no_faults_def)
  have s: "''Denied'' \<noteq> ''Approved''" by simp
  note t = updateApplicationStatus_not_approved[of example_db 0 example_application "''Denied''"
      no_faults example_now r d']
  from t example_find s rd n
  have "db_leases d' = db_leases example_db
      \<and> find_application d' 0 = Some (example_application\<lparr>app_status := ''Denied''\<rparr>)"
    by blast
  then show ?thesis using example_find s n rd by (simp add: example_application_def)
qed

subsection \<open>Approval\<close>

lemma MakeDay_next_year:
  "Day t + 364 \<le> MakeDay (YearFromTime t + 1) (MonthFromTime t) (DateFromTime t) \<and>
   MakeDay (YearFromTime t + 1) (MonthFromTime t) (DateFromTime t) \<le> Day t + 367"
proof -
  define M where "M = MonthFromTime t"
  have "0 \<le> M \<and> M \<le> 11" unfolding M_def by (rule MonthFromTime_range)
  then have "M = 0 \<or> M = 1 \<or> M = 2 \<or> M = 3 \<or> M = 4 \<or> M = 5 \<or> M = 6 \<or> M = 7 \<or> M = 8
      \<or> M = 9 \<or> M = 10 \<or> M = 11" by arith
  then show ?thesis
    unfolding DateFromTime_def DayWithinYear_def MakeDay_def M_def[symmetric] Let_def
    by (elim disjE) (simp_all add: monthStart_def DayFromYear_step)
qed

lemma oneYearFrom_valid:
  assumes "- maxTime \<le> now" "now + 367 * msPerDay \<le> maxTime"
  shows "\<exists>e. oneYearFrom now = Some e \<and> now < e"
proof -
  let ?d = "MakeDay (YearFromTime now + 1) (MonthFromTime now) (DateFromTime now)"
  let ?u = "MakeDate ?d (TimeWithinDay now)"
  have t: "now = Day now * msPerDay + TimeWithinDay now"
    using Day_TimeWithinDay[of now] by (simp add: MakeDate_def)
  have b: "Day now + 364 \<le> ?d" "?d \<le> Day now + 367" using MakeDay_next_year[of now] by auto
  have p: "0 < msPerDay" by (simp add: msPerDay_def)
  have "(Day now + 364) * msPerDay \<le> ?d * msPerDay" using b(1) p by (simp add: mult_right_mono)
  moreover have "?d * msPerDay \<le> (Day now + 367) * msPerDay"
    using b(2) p by (simp add: mult_right_mono)
  ultimately have u: "now + 364 * msPerDay \<le> ?u" "?u \<le> now + 367 * msPerDay"
    using t unfolding MakeDate_def by (simp_all add: algebra_simps)
  then have "\<bar>?u\<bar> \<le> maxTime" "now < ?u" using assms p by linarith+
  then show ?thesis
    by (simp add: oneYearFrom_def setFullYear_def getFullYear_def TimeClip_def Let_def)
qed

lemma updateApplicationStatus_approved_run:
  assumes ha: "find_application d aid = Some a"
    and hp: "find_property d (app_propertyId a) = Some p"
    and ht: "find_tenant d (app_tenantCognitoId a) = Some t"
    and he: "oneYearFrom now = Some e"
    and hf: "flt 0 = None" "flt 1 = None" "flt 2 = None" "flt 3 = None" "flt 5 = None"
    and hl: "l = \<lparr>lease_id = db_leaseSeq d, lease_startDate = now, lease_endDate = e,
                 lease_rent = prop_pricePerMonth p, lease_deposit = prop_securityDeposit p,
                 lease_propertyId = app_propertyId a,
                 lease_tenantCognitoId = app_tenantCognitoId a\<rparr>"
    and hd: "d' = d\<lparr>db_leases := db_leases d @ [l], db_leaseSeq := Suc (db_leaseSeq d),
                  db_properties :=
                    map (\<lambda>q. if prop_id q = app_propertyId a
                              then q\<lparr>prop_tenants := insert (app_tenantCognitoId a) (prop_tenants q)\<rparr>
                              else q) (db_properties d),
                  db_applications :=
                    map (\<lambda>x. if app_id x = aid
                              then x\<lparr>app_status := ''Approved'', app_leaseId := Some (db_leaseSeq d)\<rparr>
                              else x) (db_applications d)\<rparr>"
  shows "updateApplicationStatus flt now aid ''Approved'' d =
           (Json 200 (map_option (view_application d') (find_application d' aid)), d')"
  using ha hp ht he hf
  unfolding hl hd
  by (simp add: updateApplicationStatus_def bindDb_def failing_def throwDb_def returnDb_def
      application_findUnique_def application_update_def lease_create_def
      property_connect_tenant_def view_application_fields find_property_def find_tenant_def
      find_application_def Let_def)

text \<open>
  Claim C1. On a database that keeps its constraints, for every existing application, when
  the status update is called with \<^verbatim>\<open>Approved\<close> and no database call fails, exactly one
  lease is added. Its number is new, so it is none of the leases there were, and not the
  lease the application referred to; its rent and deposit are those of the property; the
  tenant is in the occupancy set of the property; and the application has the status
  \<^verbatim>\<open>Approved\<close> and refers to the new lease, which the answer shows. The clock is at
  least 367 days before the last date of JavaScript, so that the end date is valid. The
  constraints assumed of the database are kept by every handler
  (\<open>integrity_updateApplicationStatus\<close>, \<open>integrity_createApplication\<close>,
  \<open>integrity_createProperty\<close>).
\<close>

theorem updateApplicationStatus_approved:
  "integrity d \<and> find_application d aid = Some a
     \<and> - maxTime \<le> now \<and> now + 367 * msPerDay \<le> maxTime
     \<and> flt 0 = None \<and> flt 1 = None \<and> flt 2 = None \<and> flt 3 = None \<and> flt 5 = None \<longrightarrow>
   (\<exists>l p v d'.
       updateApplicationStatus flt now aid ''Approved'' d = (Json 200 (Some v), d')
     \<and> db_leases d' = db_leases d @ [l]
     \<and> lease_id l \<notin> lease_id ` set (db_leases d)
     \<and> app_leaseId a \<noteq> Some (lease_id l)
     \<and> find_property d (app_propertyId a) = Some p
     \<and> lease_rent l = prop_pricePerMonth p \<and> lease_deposit l = prop_securityDeposit p
     \<and> lease_propertyId l = app_propertyId a
     \<and> lease_tenantCognitoId l = app_tenantCognitoId a
     \<and> lease_startDate l = now
     \<and> find_property d' (app_propertyId a) =
           Some (p\<lparr>prop_tenants := insert (app_tenantCognitoId a) (prop_tenants p)\<rparr>)
     \<and> find_application d' aid =
           Some (a\<lparr>app_status := ''Approved'', app_leaseId := Some (lease_id l)\<rparr>)
     \<and> av_app v = a\<lparr>app_status := ''Approved'', app_leaseId := Some (lease_id l)\<rparr>
     \<and> av_lease v = Some l)"
proof (intro impI)
  assume h: "integrity d \<and> find_application d aid = Some a
     \<and> - maxTime \<le> now \<and> now + 367 * msPerDay \<le> maxTime
     \<and> flt 0 = None \<and> flt 1 = None \<and> flt 2 = None \<and> flt 3 = None \<and> flt 5 = None"
  then have a: "a \<in> set (db_applications d)"
    by (auto simp: find_application_def dest: find_Some_set)
  with h obtain p t where p: "find_property d (app_propertyId a) = Some p"
    and t: "find_tenant d (app_tenantCognitoId a) = Some t"
    by (auto simp: integrity_def)
  from h obtain e where e: "oneYearFrom now = Some e" using oneYearFrom_valid[of now] by auto
  define l where "l = \<lparr>lease_id = db_leaseSeq d, lease_startDate = now, lease_endDate = e,
                 lease_rent = prop_pricePerMonth p, lease_deposit = prop_securityDeposit p,
                 lease_propertyId = app_propertyId a,
                 lease_tenantCognitoId = app_tenantCognitoId a\<rparr>"
  define d' where "d' = d\<lparr>db_leases := db_leases d @ [l], db_leaseSeq := Suc (db_leaseSeq d),
                  db_properties :=
                    map (\<lambda>q. if prop_id q = app_propertyId a
                              then q\<lparr>prop_tenants := insert (app_tenantCognitoId a) (prop_tenants q)\<rparr>
                              else q) (db_properties d),
                  db_applications :=
                    map (\<lambda>x. if app_id x = aid
                              then x\<lparr>app_status := ''Approved'', app_leaseId := Some (db_leaseSeq d)\<rparr>
                              else x) (db_applications d)\<rparr>"
  let ?a' = "a\<lparr>app_status := ''Approved'', app_leaseId := Some (db_leaseSeq d)\<rparr>"
  have run: "updateApplicationStatus flt now aid ''Approved'' d =
           (Json 200 (map_option (view_application d') (find_application d' aid)), d')"
    using h p t e l_def d'_def by (intro updateApplicationStatus_approved_run) auto
  have fa: "find_application d' aid = Some ?a'"
    using find_map_update[of app_id aid "db_applications d" a
        "\<lambda>x. x\<lparr>app_status := ''Approved'', app_leaseId := Some (db_leaseSeq d)\<rparr>"] h
    by (simp add: find_application_def d'_def)
  have fp: "find_property d' (app_propertyId a) =
           Some (p\<lparr>prop_tenants := insert (app_tenantCognitoId a) (prop_tenants p)\<rparr>)"
    using find_map_update[of prop_id "app_propertyId a" "db_properties d" p
        "\<lambda>q. q\<lparr>prop_tenants := insert (app_tenantCognitoId a) (prop_tenants q)\<rparr>"] p
    by (simp add: find_property_def d'_def)
  have fresh: "\<forall>x\<in>set (db_leases d). lease_id x \<noteq> db_leaseSeq d"
    using h by (auto simp: integrity_def)
  then have n1: "lease_id l \<notin> lease_id ` set (db_leases d)" by (auto simp: l_def)
  have n2: "app_leaseId a \<noteq> Some (lease_id l)"
  proof
    assume "app_leaseId a = Some (lease_id l)"
    then have "find_lease d (db_leaseSeq d) \<noteq> None"
      using h a by (auto simp: integrity_def l_def split: option.splits)
    then have "\<exists>x\<in>set (db_leases d). lease_id x = db_leaseSeq d"
      unfolding find_lease_def by (rule find_not_None)
    then obtain x where "x \<in> set (db_leases d)" "lease_id x = db_leaseSeq d" by blast
    then show False using fresh by blast
  qed
  have fl: "find_lease d' (db_leaseSeq d) = Some l"
    using find_append_new[of "db_leases d" "\<lambda>x. lease_id x = db_leaseSeq d" l] fresh
    by (simp add: find_lease_def d'_def l_def)
  define v where "v = view_application d' ?a'"
  have r: "updateApplicationStatus flt now aid ''Approved'' d = (Json 200 (Some v), d')"
    using run fa by (simp add: v_def)
  have v1: "av_app v = ?a'" by (simp add: v_def view_application_fields)
  have v2: "av_lease v = Some l" using fl by (simp add: v_def view_application_fields)
  have li: "lease_id l = db_leaseSeq d" by (simp add: l_def)
  have "updateApplicationStatus flt now aid ''Approved'' d = (Json 200 (Some v), d')
     \<and> db_leases d' = db_leases d @ [l]
     \<and> lease_id l \<notin> lease_id ` set (db_leases d)
     \<and> app_leaseId a \<noteq> Some (lease_id l)
     \<and> find_property d (app_propertyId a) = Some p
     \<and> lease_rent l = prop_pricePerMonth p \<and> lease_deposit l = prop_securityDeposit p
     \<and> lease_propertyId l = app_propertyId a
     \<and> lease_tenantCognitoId l = app_tenantCognitoId a
     \<and> lease_startDate l = now
     \<and> find_property d' (app_propertyId a) =
           Some (p\<lparr>prop_tenants := insert (app_tenantCognitoId a) (prop_tenants p)\<rparr>)
     \<and> find_application d' aid =
           Some (a\<lparr>app_status := ''Approved'', app_leaseId := Some (lease_id l)\<rparr>)
     \<and> av_app v = a\<lparr>app_status := ''Approved'', app_leaseId := Some (lease_id l)\<rparr>
     \<and> av_lease v = Some l"
    using r n1 n2 p fp fa v1 v2 unfolding li by (simp add: d'_def l_def)
  then show "\<exists>l p v d'.
       updateApplicationStatus flt now aid ''Approved'' d = (Json 200 (Some v), d')
     \<and> db_leases d' = db_leases d @ [l]
     \<and> lease_id l \<notin> lease_id ` set (db_leases d)
     \<and> app_leaseId a \<noteq> Some (lease_id l)
     \<and> find_property d (app_propertyId a) = Some p
     \<and> lease_rent l = prop_pricePerMonth p \<and> lease_deposit l = prop_securityDeposit p
     \<and> lease_propertyId l = app_propertyId a
     \<and> lease_tenantCognitoId l = app_tenantCognitoId a
     \<and> lease_startDate l = now
     \<and> find_property d' (app_propertyId a) =
           Some (p\<lparr>prop_tenants := insert (app_tenantCognitoId a) (prop_tenants p)\<rparr>)
     \<and> find_application d' aid =
           Some (a\<lparr>app_status := ''Approved'', app_leaseId := Some (lease_id l)\<rparr>)
     \<and> av_app v = a\<lparr>app_status := ''Approved'', app_leaseId := Some (lease_id l)\<rparr>
     \<and> av_lease v = Some l"
    by blast
qed

theorem updateApplicationStatus_approved_witness:
  "integrity example_db \<and> find_application example_db 0 = Some example_application
   \<and> - maxTime \<le> example_now \<and> example_now + 367 * msPerDay \<le> maxTime
   \<and> no_faults 0 = None \<and> no_faults 1 = None \<and> no_faults 2 = None \<and> no_faults 3 = None
   \<and> no_faults 5 = None
   \<and> (\<exists>l p v d'.
         updateApplicationStatus no_faults example_now 0 ''Approved'' example_db
           = (Json 200 (Some v), d')
       \<and> db_leases d' = db_leases example_db @ [l]
       \<and> lease_id l \<notin> lease_id ` set (db_leases example_db)
       \<and> app_leaseId example_application \<noteq> Some (lease_id l)
       \<and> find_property example_db (app_propertyId example_application) = Some p
       \<and> lease_rent l = prop_pricePerMonth p \<and> lease_deposit l = prop_securityDeposit p
       \<and> find_property d' (app_propertyId example_application) =
             Some (p\<lparr>prop_tenants := insert (app_tenantCognitoId example_application) (prop_tenants p)\<rparr>)
       \<and> find_application d' 0 =
             Some (example_application\<lparr>app_status := ''Approved'', app_leaseId := Some (lease_id l)\<rparr>)
       \<and> av_lease v = Some l)"
proof -
  have h: "- maxTime \<le> example_now \<and> example_now + 367 * msPerDay \<le> maxTime
      \<and> no_faults 0 = None \<and> no_faults 1 = None \<and> no_faults 2 = None \<and> no_faults 3 = None
      \<and> no_faults 5 = None"
    by (simp add: maxTime_def example_now_def msPerDay_def no_faults_def)
  note t = updateApplicationStatus_approved[of example_db 0 example_application example_now no_faults]
  from t h integrity_example example_find
  have "\<exists>l p v d'.
         updateApplicationStatus no_faults example_now 0 ''Approved'' example_db
           = (Json 200 (Some v), d')
       \<and> db_leases d' = db_leases example_db @ [l]
       \<and> lease_id l \<notin> lease_id ` set (db_leases example_db)
       \<and> app_leaseId example_application \<noteq> Some (lease_id l)
       \<and> find_property example_db (app_propertyId example_application) = Some p
       \<and> lease_rent l = prop_pricePerMonth p \<and> lease_deposit l = prop_securityDeposit p
       \<and> find_property d' (app_propertyId example_application) =
             Some (p\<lparr>prop_tenants := insert (app_tenantCognitoId example_application) (prop_tenants p)\<rparr>)
       \<and> find_application d' 0 =
             Some (example_application\<lparr>app_status := ''Approved'', app_leaseId := Some (lease_id l)\<rparr>)
       \<and> av_lease v = Some l"
    by blast
  then show ?thesis using h integrity_example example_find by blast
qed

subsection \<open>A failure between the writes of an approval\<close>

text \<open>
  Claim C2 asks for the writes of an approval to happen in one transaction, as those of
  \<open>createApplication\<close> do. They do not: in the example database, when the update of the
  property fails after the lease was created, the handler answers 500, lease 2 stays in
  the table, and no application refers to it.
\<close>

theorem updateApplicationStatus_orphaned_lease:
  "status_of (fst (updateApplicationStatus connection_lost example_now 0 ''Approved'' example_db)) = 500
   \<and> map lease_id (db_leases example_db) = [0, 1]
   \<and> map lease_id
        (db_leases (snd (updateApplicationStatus connection_lost example_now 0 ''Approved'' example_db)))
       = [0, 1, 2]
   \<and> db_applications (snd (updateApplicationStatus connection_lost example_now 0 ''Approved'' example_db))
       = [example_application]
   \<and> app_leaseId example_application = Some 0
   \<and> snd (updateApplicationStatus connection_lost example_now 0 ''Approved'' example_db) \<noteq> example_db"
  by code_simp

text \<open>The creation of an application is atomic: an answer other than 201 leaves the database as it was.\<close>

lemma transaction_atomic: "transaction body d = Inl (msg, d') \<Longrightarrow> d' = d"
  by (auto simp: transaction_def split: sum.splits prod.splits)

lemma createApplication_atomic:
  assumes "createApplication flt now req d = (r, d')" "status_of r \<noteq> 201"
  shows "d' = d"
proof (cases "flt 0")
  case (Some m)
  then show ?thesis using assms
    by (simp add: createApplication_def bindDb_def failing_def throwDb_def)
next
  case None
  show ?thesis
  proof (cases "find_property d (ca_propertyId req)")
    case n: None
    then show ?thesis using assms None
      by (simp add: createApplication_def bindDb_def failing_def returnDb_def)
  next
    case (Some p)
    then show ?thesis using assms None
      by (auto simp: createApplication_def bindDb_def failing_def returnDb_def
          split: sum.splits prod.splits dest: transaction_atomic)
  qed
qed

section \<open>Creating a property\<close>

lemma geocoded_point_sentinel: "lacks_coordinates data \<Longrightarrow> geocoded_point data = (Fin 0, Fin 0)"
  by (auto simp: lacks_coordinates_def geocoded_point_def split: list.splits)

lemma property_data_fields:
  "prop_locationId (property_data req urls lid) = lid"
  "prop_managerCognitoId (property_data req urls lid) = cp_managerCognitoId req"
  "prop_pricePerMonth (property_data req urls lid) =
     parseFloat_field (map_of (cp_propertyData req) ''pricePerMonth'')"
  "prop_securityDeposit (property_data req urls lid) =
     parseFloat_field (map_of (cp_propertyData req) ''securityDeposit'')"
  "prop_applicationFee (property_data req urls lid) =
     parseFloat_field (map_of (cp_propertyData req) ''applicationFee'')"
  "prop_beds (property_data req urls lid) = parseInt_field (map_of (cp_propertyData req) ''beds'')"
  "prop_baths (property_data req urls lid) = parseFloat_field (map_of (cp_propertyData req) ''baths'')"
  "prop_squareFeet (property_data req urls lid) =
     parseInt_field (map_of (cp_propertyData req) ''squareFeet'')"
  by (simp_all add: property_data_def Let_def)

lemma location_insert_Inr:
  "location_insert a c s co pc pt d =
     Inr (\<lparr>loc_id = db_locationSeq d, loc_address = a, loc_city = c, loc_state = s,
            loc_country = co, loc_postalCode = pc, loc_coordinates = pt\<rparr>,
          d\<lparr>db_locations := db_locations d @
                [\<lparr>loc_id = db_locationSeq d, loc_address = a, loc_city = c, loc_state = s,
                  loc_country = co, loc_postalCode = pc, loc_coordinates = pt\<rparr>],
            db_locationSeq := Suc (db_locationSeq d)\<rparr>)"
  by (simp add: location_insert_def Let_def)

lemma property_create_Inl: "property_create data d = Inl (m, d') \<Longrightarrow> d' = d"
  by (auto simp: property_create_def Let_def split: if_splits)

lemma property_create_Inr:
  "property_create data d = Inr (p, d') \<Longrightarrow>
     p = data\<lparr>prop_id := db_propertySeq d\<rparr> \<and> db_properties d' = db_properties d @ [p]
     \<and> db_locations d' = db_locations d \<and> db_managers d' = db_managers d"
  by (auto simp: property_create_def Let_def split: if_splits)

lemma createProperty_response:
  assumes "createProperty upload geocode flt req d = (r, d')"
  shows "(\<exists>msg. r = Message 500 (''Error creating property: '' @ msg)
            \<and> db_properties d' = db_properties d)
       \<or> (\<exists>v urls lid. r = Json 201 v
            \<and> pv_property v = (property_data req urls lid)\<lparr>prop_id := db_propertySeq d\<rparr>
            \<and> db_properties d' = db_properties d @ [pv_property v])"
proof (cases "upload_all upload (cp_files req)")
  case (Inl m)
  then show ?thesis using assms by (auto simp: createProperty_def)
next
  case urls: (Inr urls)
  show ?thesis
  proof (cases "geocode (cp_address req) (cp_city req) (cp_country req) (cp_postalCode req)")
    case (Inl m)
    then show ?thesis using assms urls by (auto simp: createProperty_def)
  next
    case data: (Inr data)
    show ?thesis
    proof (cases "flt 0")
      case (Some m)
      then show ?thesis using assms urls data
        by (auto simp: createProperty_def bindDb_def failing_def throwDb_def)
    next
      case f0: None
      define l where "l = \<lparr>loc_id = db_locationSeq d, loc_address = cp_address req,
            loc_city = cp_city req, loc_state = cp_state req, loc_country = cp_country req,
            loc_postalCode = cp_postalCode req, loc_coordinates = geocoded_point data\<rparr>"
      define d1 where "d1 = d\<lparr>db_locations := db_locations d @ [l],
            db_locationSeq := Suc (db_locationSeq d)\<rparr>"
      have s1: "location_insert (cp_address req) (cp_city req) (cp_state req) (cp_country req)
          (cp_postalCode req) (geocoded_point data) d = Inr (l, d1)"
        by (simp add: location_insert_Inr l_def d1_def)
      have d1p: "db_properties d1 = db_properties d" "db_propertySeq d1 = db_propertySeq d"
        by (simp_all add: d1_def)
      show ?thesis
      proof (cases "flt 1")
        case (Some m)
        then show ?thesis using assms urls data f0 s1 d1p
          by (auto simp: createProperty_def bindDb_def failing_def throwDb_def)
      next
        case f1: None
        show ?thesis
        proof (cases "property_create (property_data req urls (loc_id l)) d1")
          case (Inl e)
          then obtain m dx where e: "e = (m, dx)" by (cases e)
          then have "dx = d1" using Inl property_create_Inl by blast
          then show ?thesis using assms urls data f0 f1 s1 d1p Inl e
            by (auto simp: createProperty_def bindDb_def failing_def)
        next
          case (Inr x)
          then obtain p d2 where x: "x = (p, d2)" by (cases x)
          then have pc: "p = (property_data req urls (loc_id l))\<lparr>prop_id := db_propertySeq d1\<rparr>
              \<and> db_properties d2 = db_properties d1 @ [p]"
            using Inr property_create_Inr by blast
          have "r = Json 201 \<lparr>pv_property = p,
                    pv_location = find_location d2 (prop_locationId p),
                    pv_manager = find_manager d2 (prop_managerCognitoId p)\<rparr> \<and> d' = d2"
            using assms urls data f0 f1 s1 Inr x
            by (auto simp: createProperty_def bindDb_def failing_def)
          then show ?thesis using pc d1p by auto
        qed
      qed
    qed
  qed
qed

lemma createProperty_created:
  assumes "integrity d" "upload_all upload (cp_files req) = Inr urls"
    and "geocode (cp_address req) (cp_city req) (cp_country req) (cp_postalCode req) = Inr data"
    and "find_manager d (cp_managerCognitoId req) \<noteq> None" "flt 0 = None" "flt 1 = None"
  shows "\<exists>v l d'. createProperty upload geocode flt req d = (Json 201 v, d')
            \<and> pv_location v = Some l \<and> loc_coordinates l = geocoded_point data
            \<and> db_locations d' = db_locations d @ [l]
            \<and> prop_locationId (pv_property v) = loc_id l
            \<and> db_properties d' = db_properties d @ [pv_property v]"
proof -
  define l where "l = \<lparr>loc_id = db_locationSeq d, loc_address = cp_address req,
        loc_city = cp_city req, loc_state = cp_state req, loc_country = cp_country req,
        loc_postalCode = cp_postalCode req, loc_coordinates = geocoded_point data\<rparr>"
  define d1 where "d1 = d\<lparr>db_locations := db_locations d @ [l],
        db_locationSeq := Suc (db_locationSeq d)\<rparr>"
  define p where "p = (property_data req urls (loc_id l))\<lparr>prop_id := db_propertySeq d1\<rparr>"
  define d2 where "d2 = d1\<lparr>db_properties := db_properties d1 @ [p],
        db_propertySeq := Suc (db_propertySeq d1)\<rparr>"
  have s1: "location_insert (cp_address req) (cp_city req) (cp_state req) (cp_country req)
      (cp_postalCode req) (geocoded_point data) d = Inr (l, d1)"
    by (simp add: location_insert_Inr l_def d1_def)
  have "\<forall>x\<in>set (db_locations d). loc_id x \<noteq> db_locationSeq d"
    using assms(1) by (auto simp: integrity_def)
  then have fl: "find (\<lambda>x. loc_id x = db_locationSeq d) (db_locations d @ [l]) = Some l"
    using find_append_new[of "db_locations d" "\<lambda>x. loc_id x = db_locationSeq d" l]
    by (simp add: l_def)
  then have fl1: "find_location d1 (loc_id l) = Some l"
    by (simp add: find_location_def d1_def l_def)
  have fm1: "find_manager d1 (cp_managerCognitoId req) = find_manager d (cp_managerCognitoId req)"
    by (simp add: find_manager_def d1_def)
  have s2: "property_create (property_data req urls (loc_id l)) d1 = Inr (p, d2)"
    using fl1 fm1 assms(4)
    by (simp add: property_create_def property_data_fields Let_def p_def d2_def)
  have fl2: "find_location d2 (prop_locationId p) = Some l"
    using fl1 by (simp add: find_location_def d2_def p_def property_data_fields)
  have "createProperty upload geocode flt req d =
      (Json 201 \<lparr>pv_property = p, pv_location = find_location d2 (prop_locationId p),
                 pv_manager = find_manager d2 (prop_managerCognitoId p)\<rparr>, d2)"
    using assms s1 s2 by (simp add: createProperty_def bindDb_def failing_def)
  moreover have "loc_coordinates l = geocoded_point data" by (simp add: l_def)
  moreover have "db_locations d2 = db_locations d @ [l]" by (simp add: d2_def d1_def)
  moreover have "prop_locationId p = loc_id l" by (simp add: p_def property_data_fields)
  moreover have "db_properties d2 = db_properties d @ [p]" by (simp add: d2_def d1_def)
  ultimately show ?thesis using fl2 by simp
qed

text \<open>
  Claim C7. When the geocoding answer lacks a longitude or a latitude, the point of the
  new location is (0, 0); and when the uploads succeed, the manager exists and no database
  call fails, the creation answers 201 with a location of coordinates (0, 0).
\<close>

theorem createProperty_sentinel_coordinates:
  "lacks_coordinates data \<longrightarrow>
     geocoded_point data = (Fin 0, Fin 0)
     \<and> (integrity d \<and> upload_all upload (cp_files req) = Inr urls
        \<and> geocode (cp_address req) (cp_city req) (cp_country req) (cp_postalCode req) = Inr data
        \<and> find_manager d (cp_managerCognitoId req) \<noteq> None \<and> flt 0 = None \<and> flt 1 = None \<longrightarrow>
        (\<exists>v l d'. createProperty upload geocode flt req d = (Json 201 v, d')
            \<and> pv_location v = Some l \<and> loc_coordinates l = (Fin 0, Fin 0)
            \<and> db_locations d' = db_locations d @ [l]
            \<and> prop_locationId (pv_property v) = loc_id l
            \<and> db_properties d' = db_properties d @ [pv_property v]))"
proof (intro impI conjI)
  assume "lacks_coordinates data"
  then show g: "geocoded_point data = (Fin 0, Fin 0)" by (rule geocoded_point_sentinel)
  assume "integrity d \<and> upload_all upload (cp_files req) = Inr urls
        \<and> geocode (cp_address req) (cp_city req) (cp_country req) (cp_postalCode req) = Inr data
        \<and> find_manager d (cp_managerCognitoId req) \<noteq> None \<and> flt 0 = None \<and> flt 1 = None"
  then show "\<exists>v l d'. createProperty upload geocode flt req d = (Json 201 v, d')
            \<and> pv_location v = Some l \<and> loc_coordinates l = (Fin 0, Fin 0)
            \<and> db_locations d' = db_locations d @ [l]
            \<and> prop_locationId (pv_property v) = loc_id l
            \<and> db_properties d' = db_properties d @ [pv_property v]"
    using createProperty_created[of d upload req urls geocode data flt] g by simp
qed

theorem createProperty_sentinel_coordinates_witness:
  "lacks_coordinates [\<lparr>geo_lon = Some ''-89.65'', geo_lat = None\<rparr>]
   \<and> integrity example_db
   \<and> upload_all store_all (cp_files example_request) = Inr []
   \<and> geocode_no_lat (cp_address example_request) (cp_city example_request)
        (cp_country example_request) (cp_postalCode example_request)
       = Inr [\<lparr>geo_lon = Some ''-89.65'', geo_lat = None\<rparr>]
   \<and> find_manager example_db (cp_managerCognitoId example_request) = Some example_manager
   \<and> no_faults 0 = None \<and> no_faults 1 = None
   \<and> geocoded_point [\<lparr>geo_lon = Some ''-89.65'', geo_lat = None\<rparr>] = (Fin 0, Fin 0)
   \<and> (\<exists>v l d'. createProperty store_all geocode_no_lat no_faults example_request example_db
                   = (Json 201 v, d')
          \<and> pv_location v = Some l \<and> loc_coordinates l = (Fin 0, Fin 0)
          \<and> db_locations d' = db_locations example_db @ [l])"
proof -
  have a: "lacks_coordinates [\<lparr>geo_lon = Some ''-89.65'', geo_lat = None\<rparr>]"
    by (simp add: lacks_coordinates_def has_text_def)
  have b: "upload_all store_all (cp_files example_request) = Inr []"
    by (simp add: example_request_def)
  have c: "geocode_no_lat (cp_address example_request) (cp_city example_request)
        (cp_country example_request) (cp_postalCode example_request)
       = Inr [\<lparr>geo_lon = Some ''-89.65'', geo_lat = None\<rparr>]"
    by (simp add: geocode_no_lat_def)
  have m: "find_manager example_db (cp_managerCognitoId example_request) = Some example_manager"
    by (simp add: find_manager_def example_db_def example_request_def example_manager_def)
  have n: "no_faults 0 = None \<and> no_faults 1 = None" by (simp add: no_faults_def)
  note t = createProperty_sentinel_coordinates[of "[\<lparr>geo_lon = Some ''-89.65'', geo_lat = None\<rparr>]"
      example_db store_all example_request "[]" geocode_no_lat no_faults]
  from t a b c m n integrity_example
  have "geocoded_point [\<lparr>geo_lon = Some ''-89.65'', geo_lat = None\<rparr>] = (Fin 0, Fin 0)
   \<and> (\<exists>v l d'. createProperty store_all geocode_no_lat no_faults example_request example_db
                   = (Json 201 v, d')
          \<and> pv_location v = Some l \<and> loc_coordinates l = (Fin 0, Fin 0)
          \<and> db_locations d' = db_locations example_db @ [l])"
    by auto
  then show ?thesis using a b c m n integrity_example by blast
qed

text \<open>
  Claim C8, as the code has it. The handler does not validate the numeric fields. It
  answers 201 or 500 and nothing else. A 500 carries the message of what was thrown after
  \<^verbatim>\<open>Error creating property:\<close>, and then no property was stored. With a 201 the
  property is stored, its numeric fields being what \<^verbatim>\<open>parseFloat\<close> and \<^verbatim>\<open>parseInt\<close>
  make of the form fields: the number at the start of the text, or NaN.
\<close>

theorem createProperty_no_validation:
  "createProperty upload geocode flt req d = (r, d') \<longrightarrow>
     (status_of r = 201 \<or> status_of r = 500)
   \<and> (status_of r = 500 \<longrightarrow>
        (\<exists>msg. r = Message 500 (''Error creating property: '' @ msg))
        \<and> db_properties d' = db_properties d)
   \<and> (status_of r = 201 \<longrightarrow>
        (\<exists>v. r = Json 201 v \<and> db_properties d' = db_properties d @ [pv_property v]
           \<and> prop_pricePerMonth (pv_property v) =
               parseFloat_field (map_of (cp_propertyData req) ''pricePerMonth'')
           \<and> prop_securityDeposit (pv_property v) =
               parseFloat_field (map_of (cp_propertyData req) ''securityDeposit'')
           \<and> prop_applicationFee (pv_property v) =
               parseFloat_field (map_of (cp_propertyData req) ''applicationFee'')
           \<and> prop_beds (pv_property v) = parseInt_field (map_of (cp_propertyData req) ''beds'')
           \<and> prop_baths (pv_property v) = parseFloat_field (map_of (cp_propertyData req) ''baths'')
           \<and> prop_squareFeet (pv_property v) =
               parseInt_field (map_of (cp_propertyData req) ''squareFeet'')))"
proof
  assume "createProperty upload geocode flt req d = (r, d')"
  then have "(\<exists>msg. r = Message 500 (''Error creating property: '' @ msg)
            \<and> db_properties d' = db_properties d)
       \<or> (\<exists>v urls lid. r = Json 201 v
            \<and> pv_property v = (property_data req urls lid)\<lparr>prop_id := db_propertySeq d\<rparr>
            \<and> db_properties d' = db_properties d @ [pv_property v])"
    by (rule createProperty_response)
  then show "(status_of r = 201 \<or> status_of r = 500)
   \<and> (status_of r = 500 \<longrightarrow>
        (\<exists>msg. r = Message 500 (''Error creating property: '' @ msg))
        \<and> db_properties d' = db_properties d)
   \<and> (status_of r = 201 \<longrightarrow>
        (\<exists>v. r = Json 201 v \<and> db_properties d' = db_properties d @ [pv_property v]
           \<and> prop_pricePerMonth (pv_property v) =
               parseFloat_field (map_of (cp_propertyData req) ''pricePerMonth'')
           \<and> prop_securityDeposit (pv_property v) =
               parseFloat_field (map_of (cp_propertyData req) ''securityDeposit'')
           \<and> prop_applicationFee (pv_property v) =
               parseFloat_field (map_of (cp_propertyData req) ''applicationFee'')
           \<and> prop_beds (pv_property v) = parseInt_field (map_of (cp_propertyData req) ''beds'')
           \<and> prop_baths (pv_property v) = parseFloat_field (map_of (cp_propertyData req) ''baths'')
           \<and> prop_squareFeet (pv_property v) =
               parseInt_field (map_of (cp_propertyData req) ''squareFeet'')))"
    by (auto simp: property_data_fields)
qed

lemma example_created:
  "status_of (fst (createProperty store_all geocode_nothing no_faults example_request example_db)) = 201"
  by code_simp

lemma example_refused:
  "status_of (fst (createProperty store_all geocode_nothing database_down example_request example_db)) = 500"
  by code_simp

theorem createProperty_no_validation_witness:
  "(\<exists>v d'. createProperty store_all geocode_nothing no_faults example_request example_db
              = (Json 201 v, d')
        \<and> status_of (Json 201 v) = 201
        \<and> db_properties d' = db_properties example_db @ [pv_property v]
        \<and> prop_pricePerMonth (pv_property v) = parseFloat_field (Some ''12abc''))
   \<and> (\<exists>msg d'. createProperty store_all geocode_nothing database_down example_request example_db
              = (Message 500 (''Error creating property: '' @ msg), d')
        \<and> status_of (Message 500 (''Error creating property: '' @ msg) :: propertyView response) = 500
        \<and> db_properties d' = db_properties example_db)"
proof -
  obtain r d' where rd: "createProperty store_all geocode_nothing no_faults example_request example_db = (r, d')"
    by (cases "createProperty store_all geocode_nothing no_faults example_request example_db")
  then have s: "status_of r = 201" using example_created by simp
  obtain r2 d2 where rd2: "createProperty store_all geocode_nothing database_down example_request example_db = (r2, d2)"
    by (cases "createProperty store_all geocode_nothing database_down example_request example_db")
  then have s2: "status_of r2 = 500" using example_refused by simp
  have f: "map_of (cp_propertyData example_request) ''pricePerMonth'' = Some ''12abc''"
    by (simp add: example_request_def example_form_def)
  note t = createProperty_no_validation[of store_all geocode_nothing no_faults example_request
      example_db r d']
  note u = createProperty_no_validation[of store_all geocode_nothing database_down example_request
      example_db r2 d2]
  from t rd s f have "\<exists>v. r = Json 201 v
        \<and> db_properties d' = db_properties example_db @ [pv_property v]
        \<and> prop_pricePerMonth (pv_property v) = parseFloat_field (Some ''12abc'')"
    by auto
  moreover from u rd2 s2 have "(\<exists>msg. r2 = Message 500 (''Error creating property: '' @ msg))
        \<and> db_properties d2 = db_properties example_db"
    by auto
  ultimately show ?thesis using rd rd2 by auto
qed

text \<open>
  The claim as the specification states it, that a request with a malformed numeric field
  fails and stores no property, does not hold: the price \<^verbatim>\<open>12abc\<close> is accepted, the
  handler answers 201, and the property is stored with the price 12.
\<close>

theorem createProperty_malformed_price_counterexample:
  "map_of (cp_propertyData example_request) ''pricePerMonth'' = Some ''12abc''
   \<and> status_of (fst (createProperty store_all geocode_nothing no_faults example_request example_db)) = 201
   \<and> map prop_pricePerMonth (db_properties example_db) = [Fin 1500]
   \<and> map prop_pricePerMonth
        (db_properties (snd (createProperty store_all geocode_nothing no_faults example_request example_db)))
       = [Fin 1500, Fin 12]"
  by code_simp


end
